theory Spec2Isabelle
  imports Main
begin

section \<open>JavaScript values and the observable effects of the pipeline\<close>

text \<open>
  An error object as the pipeline reads it: \<open>error.message\<close> (absent on some thrown values)
  and the gRPC status \<open>error.code\<close> (absent on a plain \<open>new Error(msg)\<close>).
\<close>

datatype js_error = JsError (message: "string option") (code: "int option")

text \<open>\<open>new Error(msg)\<close>: a message and no code.\<close>

definition new_Error :: "string \<Rightarrow> js_error" where
  "new_Error msg = JsError (Some msg) None"

text \<open>A value inside a template literal: \<open>undefined\<close> prints as the word.\<close>

definition js_str :: "string option \<Rightarrow> string" where
  "js_str v = (case v of None \<Rightarrow> ''undefined'' | Some s \<Rightarrow> s)"

text \<open>Truthiness of a string-valued property: absent and the empty string are falsy.\<close>

definition truthy :: "string option \<Rightarrow> bool" where
  "truthy v = (case v of None \<Rightarrow> False | Some s \<Rightarrow> s \<noteq> [])"

text \<open>\<open>String.prototype.startsWith\<close> and \<open>includes\<close>, on strings as character lists.\<close>

fun js_startsWith :: "string \<Rightarrow> string \<Rightarrow> bool" where
  "js_startsWith s [] = True"
| "js_startsWith [] (p # ps) = False"
| "js_startsWith (c # cs) (p # ps) = (c = p \<and> js_startsWith cs ps)"

fun js_includes :: "string \<Rightarrow> string \<Rightarrow> bool" where
  "js_includes [] sub = (sub = [])"
| "js_includes (c # cs) sub = (js_startsWith (c # cs) sub \<or> js_includes cs sub)"

text \<open>
  \<open>toLowerCase\<close> on the ASCII letters; a character is a byte here, so the case mappings
  of code points beyond ASCII are outside this model.
\<close>

definition lower_char :: "char \<Rightarrow> char" where
  "lower_char c =
     (case map_of (zip ''ABCDEFGHIJKLMNOPQRSTUVWXYZ'' ''abcdefghijklmnopqrstuvwxyz'') c of
        None \<Rightarrow> c | Some l \<Rightarrow> l)"

definition toLowerCase :: "string \<Rightarrow> string" where
  "toLowerCase s = map lower_char s"

text \<open>A number inside a template literal, for the natural numbers the pipeline prints.\<close>

function show_nat :: "nat \<Rightarrow> string" where
  "show_nat n =
     (if n < 10 then [''0123456789'' ! n]
      else show_nat (n div 10) @ [''0123456789'' ! (n mod 10)])"
  by pat_completeness auto
termination
  by (relation "measure id") auto

text \<open>\<open>Array.prototype.join\<close> with a separator.\<close>

fun js_join :: "string \<Rightarrow> string list \<Rightarrow> string" where
  "js_join sep [] = []"
| "js_join sep [x] = x"
| "js_join sep (x # y # ys) = x @ sep @ js_join sep (y # ys)"

subsection \<open>Remote calls, timers and log lines as a trace\<close>

datatype level = Debug | Info | Warn | Err

text \<open>
  The service definition \<open>deployToCloudRun\<close> builds. \<open>invokerIamDisabled\<close> is True when
  the property is set (to \<open>true\<close>) and False when the object does not have it.
\<close>

record run_service =
  template_revision :: string
  template_image :: string
  labels :: "(string \<times> string) list"
  invokerIamDisabled :: bool
  service_name :: "string option"

text \<open>The build request of \<open>triggerCloudBuild\<close>: one step, the source and the image.\<close>

record build_step =
  step_name :: string
  step_entrypoint :: "string option"
  step_args :: "string list"
  step_dir :: string

record build_request =
  source_bucket :: string
  source_object :: string
  steps :: "build_step list"
  images :: "string list"

text \<open>Every call to a backend client, with the arguments the code passes.\<close>

datatype rpc =
    GetService string
  | EnableService string
  | EnablePromise
  | CreateBuild string build_request
  | GetBuild string string
  | GetEntries string string nat
  | ServiceExists string string string
  | CreateService string run_service string bool
  | UpdateService run_service bool
  | DeployPromise
  | Operation string

datatype rpc_method =
    MGetService | MEnableService | MEnablePromise | MCreateBuild | MGetBuild | MGetEntries
  | MServiceExists | MCreateService | MUpdateService | MDeployPromise | MOperation

fun method_of :: "rpc \<Rightarrow> rpc_method" where
  "method_of (GetService n) = MGetService"
| "method_of (EnableService n) = MEnableService"
| "method_of EnablePromise = MEnablePromise"
| "method_of (CreateBuild p b) = MCreateBuild"
| "method_of (GetBuild p i) = MGetBuild"
| "method_of (GetEntries f ob n) = MGetEntries"
| "method_of (ServiceExists p l s) = MServiceExists"
| "method_of (CreateService p s i v) = MCreateService"
| "method_of (UpdateService s v) = MUpdateService"
| "method_of DeployPromise = MDeployPromise"
| "method_of (Operation d) = MOperation"

text \<open>
  What a run does that an observer can see, in order: a backend call, a timer
  (\<open>setTimeout(resolve, ms)\<close>), a console line, a progress event given to the callback.
\<close>

datatype event =
    Call rpc
  | Sleep nat
  | Console level string
  | Progress level string

type_synonym trace = "event list"

text \<open>
  An asynchronous computation: from the trace so far to its outcome (\<open>Inl\<close> the thrown
  error, \<open>Inr\<close> the value) and the trace extended by what it did.
\<close>

type_synonym 'a io = "trace \<Rightarrow> (js_error + 'a) \<times> trace"

definition io_return :: "'a \<Rightarrow> 'a io" where
  "io_return x tr = (Inr x, tr)"

definition io_throw :: "js_error \<Rightarrow> 'a io" where
  "io_throw e tr = (Inl e, tr)"

definition io_bind :: "'a io \<Rightarrow> ('a \<Rightarrow> 'b io) \<Rightarrow> 'b io" where
  "io_bind m f tr = (case m tr of (Inl e, tr1) \<Rightarrow> (Inl e, tr1) | (Inr x, tr1) \<Rightarrow> f x tr1)"

definition io_catch :: "'a io \<Rightarrow> (js_error \<Rightarrow> 'a io) \<Rightarrow> 'a io" where
  "io_catch m h tr = (case m tr of (Inl e, tr1) \<Rightarrow> h e tr1 | (Inr x, tr1) \<Rightarrow> (Inr x, tr1))"

definition emit :: "event list \<Rightarrow> unit io" where
  "emit evs tr = (Inr (), tr @ evs)"

text \<open>The number of calls of one client method made so far.\<close>

definition is_call :: "rpc_method \<Rightarrow> event \<Rightarrow> bool" where
  "is_call m ev = (case ev of Call r \<Rightarrow> method_of r = m | _ \<Rightarrow> False)"

definition ncalls :: "rpc_method \<Rightarrow> trace \<Rightarrow> nat" where
  "ncalls m tr = length (filter (is_call m) tr)"

text \<open>
  A call to a backend client. The backend is outside the program: its answer to the
  \<open>i\<close>-th call of a method is \<open>answers i\<close>, any sequence of failures and results.
\<close>

definition remote :: "rpc \<Rightarrow> (nat \<Rightarrow> js_error + 'a) \<Rightarrow> 'a io" where
  "remote r answers tr = (answers (ncalls (method_of r) tr), tr @ [Call r])"

text \<open>The timers of a trace, and the calls of a trace.\<close>

definition sleeps :: "trace \<Rightarrow> nat list" where
  "sleeps tr = concat (map (\<lambda>ev. case ev of Sleep ms \<Rightarrow> [ms] | _ \<Rightarrow> []) tr)"

definition calls :: "trace \<Rightarrow> rpc list" where
  "calls tr = concat (map (\<lambda>ev. case ev of Call r \<Rightarrow> [r] | _ \<Rightarrow> []) tr)"

section \<open>helpers.js: callWithRetry, checkAndEnableApi, ensureApisEnabled\<close>

text \<open>
  \<open>callWithRetry(fn, description)\<close>: the \<open>while (true)\<close> loop with its counter
  \<open>retries\<close>. A failure with \<open>error.code === 7\<close> while \<open>retries < maxRetries\<close> warns on
  the console, waits and goes round again; every other failure is thrown as it is.
\<close>

definition maxRetries :: nat where
  "maxRetries = 7"

definition initialBackoff :: nat where
  "initialBackoff = 1000"

definition retry_warning :: "string \<Rightarrow> nat \<Rightarrow> nat \<Rightarrow> string" where
  "retry_warning description backoff retries =
     ''API call \"'' @ description @ ''\" failed with PERMISSION_DENIED. Retrying in ''
       @ show_nat (backoff div 1000) @ ''s... (attempt '' @ show_nat retries @ ''/''
       @ show_nat maxRetries @ '')''"

function callWithRetry_loop :: "'a io \<Rightarrow> string \<Rightarrow> nat \<Rightarrow> 'a io" where
  "callWithRetry_loop fn description retries tr =
     (case fn tr of
        (Inr v, tr1) \<Rightarrow> (Inr v, tr1)
      | (Inl error, tr1) \<Rightarrow>
          if code error = Some 7 \<and> retries < maxRetries then
            (let retries1 = retries + 1;
                 backoff = (if retries1 = 1 then 15000
                            else initialBackoff * 2 ^ (retries1 - 2))
             in callWithRetry_loop fn description retries1
                  (tr1 @ [Console Warn (retry_warning description backoff retries1),
                          Sleep backoff]))
          else (Inl error, tr1))"
  by pat_completeness auto
termination
  by (relation "measure (\<lambda>(fn, description, retries, tr). maxRetries - retries)") auto

definition callWithRetry :: "'a io \<Rightarrow> string \<Rightarrow> 'a io" where
  "callWithRetry fn description = callWithRetry_loop fn description 0"


text \<open>
  The answers of the backend clients held by \<open>context\<close>, per method in call order, the
  name builders of the run client, and the clock (\<open>Date.now()\<close>). The outcome of
  \<open>checkCloudRunServiceExists\<close> (imported from run.js) is a parameter as well.

  A \<open>getService\<close> answers with the \<open>state\<close> of the service, a \<open>createBuild\<close> with
  \<open>operation.metadata.build.id\<close>, a \<open>getBuild\<close> with the build (\<open>status\<close>, the names
  of \<open>results.images\<close>, \<open>logUrl\<close>), a \<open>getEntries\<close> with the entries' \<open>data\<close>
  (None for \<open>undefined\<close>), and the awaited deployment with the service's \<open>uri\<close>.
\<close>

record run_response =
  uri :: "string option"

record build =
  build_status :: string
  build_images :: "string list"
  build_logUrl :: "string option"

type_synonym log_entry = "string option"

record backend =
  getService_r :: "nat \<Rightarrow> js_error + string"
  enableService_r :: "nat \<Rightarrow> js_error + unit"
  enablePromise_r :: "nat \<Rightarrow> js_error + unit"
  createBuild_r :: "nat \<Rightarrow> js_error + string"
  getBuild_r :: "nat \<Rightarrow> js_error + build"
  getEntries_r :: "nat \<Rightarrow> js_error + log_entry list option"
  serviceExists_r :: "nat \<Rightarrow> js_error + bool"
  createService_r :: "nat \<Rightarrow> js_error + unit"
  updateService_r :: "nat \<Rightarrow> js_error + unit"
  deployPromise_r :: "nat \<Rightarrow> js_error + run_response"
  runClient_locationPath :: "string \<Rightarrow> string \<Rightarrow> string"
  runClient_servicePath :: "string \<Rightarrow> string \<Rightarrow> string \<Rightarrow> string"
  date_now :: nat

text \<open>
  util/helpers.js, \<open>logAndProgress(message, progressCallback, severity = 'info')\<close>:
  \<open>console.error\<close> for an error and \<open>console.log\<close> otherwise, then the callback when
  there is one (\<open>progressCallback\<close> is True when the caller passed one). The callback
  is the caller's; it is taken to return without throwing.
\<close>

definition log_events :: "string \<Rightarrow> bool \<Rightarrow> level \<Rightarrow> event list" where
  "log_events msg progressCallback severity =
     Console (if severity = Err then Err else Info) msg
       # (if progressCallback then [Progress severity msg] else [])"

definition logAndProgress :: "string \<Rightarrow> bool \<Rightarrow> level \<Rightarrow> unit io" where
  "logAndProgress msg progressCallback severity =
     emit (log_events msg progressCallback severity)"

text \<open>
  helpers.js writes to the console and to the callback itself:
  \<open>console.log(m); if (progressCallback) progressCallback({level, data: m})\<close>.
\<close>

definition console_and_progress :: "level \<Rightarrow> string \<Rightarrow> bool \<Rightarrow> event list" where
  "console_and_progress lvl msg progressCallback =
     Console lvl msg # (if progressCallback then [Progress lvl msg] else [])"

text \<open>
  \<open>checkAndEnableApi\<close>: fetch the state; when it is not \<open>'ENABLED'\<close>, announce it, call
  \<open>enableService\<close> and await the operation.
\<close>

definition checkAndEnableApi :: "backend \<Rightarrow> string \<Rightarrow> string \<Rightarrow> bool \<Rightarrow> unit io" where
  "checkAndEnableApi serviceUsageClient serviceName api progressCallback =
     io_bind (callWithRetry (remote (GetService serviceName) (getService_r serviceUsageClient))
                (''getService '' @ api))
       (\<lambda>state.
          if state \<noteq> ''ENABLED'' then
            io_bind (emit (console_and_progress Info
                             (''API ['' @ api @ ''] is not enabled. Enabling...'')
                             progressCallback))
              (\<lambda>_. io_bind (callWithRetry
                               (remote (EnableService serviceName)
                                  (enableService_r serviceUsageClient))
                               (''enableService '' @ api))
                 (\<lambda>operation. remote EnablePromise (enablePromise_r serviceUsageClient)))
          else io_return ())"

text \<open>
  \<open>ensureApisEnabled\<close>: the \<open>for (const api of apis)\<close> loop. A failed
  \<open>checkAndEnableApi\<close> is warned about, followed by a 1000 ms timer and one more
  \<open>checkAndEnableApi\<close>; when that fails too, a new error naming the API is thrown
  and the loop is left.
\<close>

definition ensure_failed_message :: "string \<Rightarrow> string" where
  "ensure_failed_message api =
     ''Failed to ensure API ['' @ api @ ''] is enabled after retry. Please check manually.''"

fun ensureApisEnabled_loop :: "backend \<Rightarrow> string \<Rightarrow> bool \<Rightarrow> string list \<Rightarrow> unit io" where
  "ensureApisEnabled_loop context projectId progressCallback [] = io_return ()"
| "ensureApisEnabled_loop context projectId progressCallback (api # apis) =
     (let serviceName = ''projects/'' @ projectId @ ''/services/'' @ api in
      io_bind
        (io_catch (checkAndEnableApi context serviceName api progressCallback)
           (\<lambda>error.
              io_bind (emit (console_and_progress Warn
                               (''Failed to check/enable '' @ api @ '', retrying in 1s...'')
                               progressCallback
                             @ [Sleep 1000]))
                (\<lambda>_. io_catch (checkAndEnableApi context serviceName api progressCallback)
                   (\<lambda>retryError.
                      io_bind (emit (console_and_progress Err (ensure_failed_message api)
                                       progressCallback))
                        (\<lambda>_. io_throw (new_Error (ensure_failed_message api)))))))
        (\<lambda>_. ensureApisEnabled_loop context projectId progressCallback apis))"

definition ensureApisEnabled :: "backend \<Rightarrow> string \<Rightarrow> string list \<Rightarrow> bool \<Rightarrow> unit io" where
  "ensureApisEnabled context projectId apis progressCallback =
     io_bind (emit (console_and_progress Info ''Checking and enabling required APIs...''
                      progressCallback))
       (\<lambda>_. io_bind (ensureApisEnabled_loop context projectId progressCallback apis)
          (\<lambda>_. emit (console_and_progress Info ''All required APIs are enabled.''
                        progressCallback)))"

section \<open>build.js: triggerCloudBuild\<close>

definition DELAY_WAIT_FOR_BUILD_LOGS :: nat where
  "DELAY_WAIT_FOR_BUILD_LOGS = 10000"

definition BUILD_LOGS_LINES_TO_FETCH :: nat where
  "BUILD_LOGS_LINES_TO_FETCH = 100"

definition newline :: string where
  "newline = [CHR 0x0A]"

text \<open>
  The \<open>while (true)\<close> loop that polls \<open>getBuild\<close>: it is left with the build as soon as
  its status is one of the five listed; otherwise the status is logged at debug level, a
  5000 ms timer runs and the loop goes round again. Nothing bounds the number of rounds,
  so a run that never sees a listed status has no result (\<open>None\<close>).
\<close>

partial_function (option) pollBuild ::
  "backend \<Rightarrow> string \<Rightarrow> string \<Rightarrow> bool \<Rightarrow> trace \<Rightarrow> ((js_error + build) \<times> trace) option"
where
  "pollBuild context projectId buildId progressCallback tr =
     (case callWithRetry (remote (GetBuild projectId buildId) (getBuild_r context))
             (''cloudBuild.getBuild '' @ buildId) tr of
        (Inl e, tr1) \<Rightarrow> Some (Inl e, tr1)
      | (Inr getBuildOperation, tr1) \<Rightarrow>
          if build_status getBuildOperation
               \<in> set [''SUCCESS'', ''FAILURE'', ''INTERNAL_ERROR'', ''TIMEOUT'', ''CANCELLED'']
          then Some (Inr getBuildOperation, tr1)
          else pollBuild context projectId buildId progressCallback
                 (tr1 @ log_events (''Build status: '' @ build_status getBuildOperation
                                      @ ''. Waiting...'') progressCallback Debug
                      @ [Sleep 5000]))"

text \<open>
  The \<open>else\<close> branch after the loop, for a build that did not succeed. The \<open>try\<close> block
  yields the snippet the final error carries: the fetched lines, oldest first, when
  \<open>getEntries\<close> gave at least one entry; the default with the log URL when it gave
  none, and, through the \<open>catch\<close>, when the fetch failed.
\<close>

definition default_snippet :: "build \<Rightarrow> string" where
  "default_snippet completedBuild =
     newline @ newline @ ''Refer to Log URL for full details: ''
       @ js_str (build_logUrl completedBuild)"

definition log_lines :: "log_entry list \<Rightarrow> string list" where
  "log_lines entries = map (\<lambda>entry. case entry of None \<Rightarrow> [] | Some d \<Rightarrow> d) (rev entries)"

definition lines_snippet :: "string \<Rightarrow> string list \<Rightarrow> string" where
  "lines_snippet buildId logLines =
     newline @ newline @ ''Last '' @ show_nat (length logLines) @ '' log lines from build ''
       @ buildId @ '':'' @ newline @ js_join newline logLines"

definition fetch_snippet :: "backend \<Rightarrow> string \<Rightarrow> build \<Rightarrow> bool \<Rightarrow> string io" where
  "fetch_snippet context buildId completedBuild progressCallback =
     io_catch
       (io_bind (logAndProgress (''Attempting to fetch last ''
                    @ show_nat BUILD_LOGS_LINES_TO_FETCH @ '' log lines for build ''
                    @ buildId @ ''...'') progressCallback Debug)
          (\<lambda>_. io_bind (emit [Sleep DELAY_WAIT_FOR_BUILD_LOGS])
          (\<lambda>_. io_bind (callWithRetry
                           (remote (GetEntries
                                      (''resource.type=\"build\" AND resource.labels.build_id=\"''
                                         @ buildId @ ''\"'')
                                      ''timestamp desc'' BUILD_LOGS_LINES_TO_FETCH)
                              (getEntries_r context))
                           (''logging.getEntries for build '' @ buildId))
          (\<lambda>entries.
             case entries of
               Some (entry # others) \<Rightarrow>
                 io_bind (logAndProgress (''Successfully fetched snippet of build logs for ''
                            @ buildId @ ''.'') progressCallback Info)
                   (\<lambda>_. io_return (lines_snippet buildId (log_lines (entry # others))))
             | _ \<Rightarrow>
                 io_bind (logAndProgress (''No specific log entries retrieved for build ''
                            @ buildId @ ''. '' @ default_snippet completedBuild)
                            progressCallback Warn)
                   (\<lambda>_. io_return (default_snippet completedBuild))))))
       (\<lambda>logError.
          io_bind (emit [Console Err (''Error fetching build logs for '' @ buildId @ '':'')])
            (\<lambda>_. io_bind (logAndProgress (''Failed to fetch build logs snippet: ''
                              @ js_str (message logError) @ ''. ''
                              @ default_snippet completedBuild) progressCallback Warn)
            (\<lambda>_. io_return (default_snippet completedBuild))))"

text \<open>
  What follows the loop. On \<open>'SUCCESS'\<close> the build is returned after two log lines;
  reading \<open>results.images[0].name\<close> of a build without images is a TypeError.
\<close>

definition no_image_error :: js_error where
  "no_image_error =
     JsError (Some ''Cannot read properties of undefined (reading 'name')'') None"

definition build_completed :: "backend \<Rightarrow> string \<Rightarrow> build \<Rightarrow> bool \<Rightarrow> build io" where
  "build_completed context buildId completedBuild progressCallback =
     (if build_status completedBuild = ''SUCCESS'' then
        io_bind (logAndProgress (''Cloud Build job '' @ buildId @ '' completed successfully.'')
                   progressCallback Info)
          (\<lambda>_. case build_images completedBuild of
                  [] \<Rightarrow> io_throw no_image_error
                | img # _ \<Rightarrow>
                    io_bind (logAndProgress (''Image built: '' @ img) progressCallback Info)
                      (\<lambda>_. io_return completedBuild))
      else
        io_bind (logAndProgress (''Cloud Build job '' @ buildId @ '' failed with status: ''
                   @ build_status completedBuild) progressCallback Err)
          (\<lambda>_. io_bind (logAndProgress (''Build logs: '' @ js_str (build_logUrl completedBuild))
                           progressCallback Info)
          (\<lambda>_. io_bind (fetch_snippet context buildId completedBuild progressCallback)
          (\<lambda>buildLogsSnippet.
             io_throw (new_Error (''Build '' @ buildId @ '' failed.'' @ buildLogsSnippet))))))"

definition build_steps :: "string \<Rightarrow> bool \<Rightarrow> build_step list" where
  "build_steps targetImageUrl hasDockerfile =
     (if hasDockerfile then
        [\<lparr>step_name = ''gcr.io/cloud-builders/docker'', step_entrypoint = None,
          step_args = [''build'', ''-t'', targetImageUrl, ''.''], step_dir = ''/workspace''\<rparr>]
      else
        [\<lparr>step_name = ''gcr.io/k8s-skaffold/pack'', step_entrypoint = Some ''pack'',
          step_args = [''build'', targetImageUrl, ''--builder'',
                       ''gcr.io/buildpacks/builder:latest''],
          step_dir = ''/workspace''\<rparr>])"

definition triggerCloudBuild ::
  "backend \<Rightarrow> string \<Rightarrow> string \<Rightarrow> string \<Rightarrow> string \<Rightarrow> string \<Rightarrow> string \<Rightarrow> bool \<Rightarrow> bool
     \<Rightarrow> trace \<Rightarrow> ((js_error + build) \<times> trace) option"
where
  "triggerCloudBuild context projectId location sourceBucketName sourceBlobName targetRepoName
       targetImageUrl hasDockerfile progressCallback tr =
     (let build = \<lparr>source_bucket = sourceBucketName, source_object = sourceBlobName,
                   steps = build_steps targetImageUrl hasDockerfile,
                   images = [targetImageUrl]\<rparr>
      in case io_bind (logAndProgress (''Initiating Cloud Build for gs://'' @ sourceBucketName
                         @ ''/'' @ sourceBlobName @ '' in '' @ location @ ''...'')
                         progressCallback Info)
                (\<lambda>_. io_bind (callWithRetry (remote (CreateBuild projectId build)
                                                (createBuild_r context))
                                 ''cloudBuild.createBuild'')
                (\<lambda>buildId. io_bind (logAndProgress ''Cloud Build job started...''
                                      progressCallback Info)
                (\<lambda>_. io_return buildId))) tr of
           (Inl e, tr1) \<Rightarrow> Some (Inl e, tr1)
         | (Inr buildId, tr1) \<Rightarrow>
             (case pollBuild context projectId buildId progressCallback tr1 of
                None \<Rightarrow> None
              | Some (Inl e, tr2) \<Rightarrow> Some (Inl e, tr2)
              | Some (Inr completedBuild, tr2) \<Rightarrow>
                  Some (build_completed context buildId completedBuild progressCallback tr2)))"


section \<open>deployer.js: deployToCloudRun\<close>

text \<open>
  The inner \<open>try\<close> block: the validate-only call, an update when the service exists and
  a create otherwise, on a copy of the service definition.
\<close>

definition dry_run ::
  "backend \<Rightarrow> string \<Rightarrow> string \<Rightarrow> string \<Rightarrow> bool \<Rightarrow> run_service \<Rightarrow> bool \<Rightarrow> unit io"
where
  "dry_run context parent servicePath serviceId exists service progressCallback =
     io_bind (logAndProgress (''Performing dry run for service '' @ serviceId @ ''...'')
                progressCallback Debug)
       (\<lambda>_. io_bind
               (if exists then
                  callWithRetry
                    (remote (UpdateService (service\<lparr>service_name := Some servicePath\<rparr>) True)
                       (updateService_r context))
                    (''updateService (dry run) '' @ serviceId)
                else
                  callWithRetry
                    (remote (CreateService parent service serviceId True)
                       (createService_r context))
                    (''createService (dry run) '' @ serviceId))
       (\<lambda>_. logAndProgress (''Dry run successful for '' @ serviceId
                               @ '' with current configuration.'') progressCallback Debug))"

text \<open>
  The \<open>catch (dryRunError)\<close> block: it yields the service definition for the real call,
  with \<open>invokerIamDisabled\<close> deleted, when \<open>skipIamCheck\<close> is set, the message is truthy
  and one of the three tests under it holds; otherwise it throws a new error.
\<close>

definition dry_run_failed ::
  "string \<Rightarrow> run_service \<Rightarrow> bool \<Rightarrow> bool \<Rightarrow> js_error \<Rightarrow> run_service io"
where
  "dry_run_failed serviceId service progressCallback skipIamCheck dryRunError =
     io_bind (logAndProgress (''Dry run for '' @ serviceId @ '' failed: ''
                @ js_str (message dryRunError)) progressCallback Warn)
       (\<lambda>_. if skipIamCheck \<and> truthy (message dryRunError)
                 \<and> (js_includes (toLowerCase (js_str (message dryRunError)))
                        ''invokeriamdisabled''
                    \<or> js_includes (toLowerCase (js_str (message dryRunError)))
                        ''iam policy violation''
                    \<or> code dryRunError = Some 3)
             then
               io_bind (logAndProgress
                          (''Dry run suggests 'invokerIamDisabled' is not allowed or invalid. ''
                             @ ''Attempting deployment without it.'') progressCallback Warn)
                 (\<lambda>_. io_return (service\<lparr>invokerIamDisabled := False\<rparr>))
             else
               io_bind (logAndProgress (''Dry run validation failed for service '' @ serviceId
                          @ '': '' @ js_str (message dryRunError)) progressCallback Err)
                 (\<lambda>_. io_throw (new_Error (''Dry run validation failed for service ''
                                            @ serviceId @ '': ''
                                            @ js_str (message dryRunError)))))"

text \<open>The real call: \<open>updateService\<close> or \<open>createService\<close> without \<open>validateOnly\<close>.\<close>

definition real_mutation ::
  "backend \<Rightarrow> string \<Rightarrow> string \<Rightarrow> string \<Rightarrow> bool \<Rightarrow> run_service \<Rightarrow> bool \<Rightarrow> unit io"
where
  "real_mutation context parent servicePath serviceId exists service progressCallback =
     (if exists then
        io_bind (logAndProgress (''Updating existing service '' @ serviceId @ ''...'')
                   progressCallback Info)
          (\<lambda>_. callWithRetry
                  (remote (UpdateService (service\<lparr>service_name := Some servicePath\<rparr>) False)
                     (updateService_r context))
                  (''updateService '' @ serviceId))
      else
        io_bind (logAndProgress (''Creating new service '' @ serviceId @ ''...'')
                   progressCallback Info)
          (\<lambda>_. callWithRetry
                  (remote (CreateService parent service serviceId False)
                     (createService_r context))
                  (''createService '' @ serviceId)))"

text \<open>
  After the real call: a log line, the wait for the operation and the log line with the
  address of the service.
\<close>

definition complete_deployment ::
  "backend \<Rightarrow> string \<Rightarrow> string \<Rightarrow> string \<Rightarrow> bool \<Rightarrow> run_service \<Rightarrow> bool \<Rightarrow> run_response io"
where
  "complete_deployment context parent servicePath serviceId exists service progressCallback =
     io_bind (real_mutation context parent servicePath serviceId exists service
                progressCallback)
       (\<lambda>operation.
          io_bind (logAndProgress (''Deploying '' @ serviceId @ '' to Cloud Run...'')
                     progressCallback Info)
       (\<lambda>_. io_bind (remote DeployPromise (deployPromise_r context))
       (\<lambda>response.
          io_bind (logAndProgress (''Service deployed/updated successfully: ''
                     @ js_str (uri response)) progressCallback Info)
       (\<lambda>_. io_return response))))"

text \<open>The outer \<open>catch (error)\<close> block: two log lines, and the same error again.\<close>

definition deployment_failed :: "string \<Rightarrow> bool \<Rightarrow> js_error \<Rightarrow> run_response io" where
  "deployment_failed serviceId progressCallback error =
     io_bind (emit [Console Err (''Error deploying/updating service '' @ serviceId @ '':'')])
       (\<lambda>_. io_bind (logAndProgress (''Error deploying/updating service '' @ serviceId
                         @ '': '' @ js_str (message error)) progressCallback Err)
       (\<lambda>_. io_throw error))"

text \<open>
  \<open>checkCloudRunServiceExists\<close> is imported from run.js; what it answers (the
  service exists, it does not, or an error) is the backend's.
\<close>

definition checkCloudRunServiceExists ::
  "backend \<Rightarrow> string \<Rightarrow> string \<Rightarrow> string \<Rightarrow> bool \<Rightarrow> bool io"
where
  "checkCloudRunServiceExists context projectId location serviceId progressCallback =
     remote (ServiceExists projectId location serviceId) (serviceExists_r context)"

definition deployToCloudRun ::
  "backend \<Rightarrow> string \<Rightarrow> string \<Rightarrow> string \<Rightarrow> string \<Rightarrow> bool \<Rightarrow> bool \<Rightarrow> run_response io"
where
  "deployToCloudRun context projectId location serviceId imgUrl progressCallback skipIamCheck =
     (let parent = runClient_locationPath context projectId location;
          servicePath = runClient_servicePath context projectId location serviceId;
          revisionName = serviceId @ ''-'' @ show_nat (date_now context);
          service = \<lparr>template_revision = revisionName, template_image = imgUrl,
                     labels = [(''created-by'', ''cloud-run-mcp'')],
                     invokerIamDisabled = skipIamCheck, service_name = None\<rparr>
      in io_catch
           (io_bind (checkCloudRunServiceExists context projectId location serviceId
                       progressCallback)
              (\<lambda>exists.
                 io_bind (io_catch
                            (io_bind (dry_run context parent servicePath serviceId exists
                                        service progressCallback)
                               (\<lambda>_. io_return service))
                            (dry_run_failed serviceId service progressCallback skipIamCheck))
                   (\<lambda>service. complete_deployment context parent servicePath serviceId
                                exists service progressCallback)))
           (deployment_failed serviceId progressCallback))"

section \<open>archive.js and the Dockerfile detection of deploy\<close>

text \<open>
  An item of the \<open>files\<close> array: a string, an object with or without its \<open>filename\<close>
  and \<open>content\<close> properties (\<open>None\<close>: the object has no such property), \<open>null\<close>, or
  a value that is neither an object nor a string (a number, a boolean, \<open>undefined\<close>),
  given by its source text.
\<close>

datatype js_item =
    JString string
  | JObject "string option" "string option"
  | JNull
  | JPrimitive string

datatype fs_kind = RegularFile | Directory

text \<open>What the archiver is handed: \<open>append\<close>, \<open>directory\<close> and \<open>file\<close>.\<close>

datatype archive_entry =
    Append string string
  | AddDirectory string "string option"
  | AddFile string string

text \<open>
  Node's own functions and the file system, as parameters: \<open>fs_stat p\<close> is None when
  nothing is at \<open>p\<close> (\<open>existsSync\<close> is false and \<open>statSync\<close> throws), and
  \<open>archiver_finalize\<close> is what the archiver makes of its entries, the buffer or the error
  of its \<open>error\<close> or \<open>warning\<close> event.
\<close>

record node =
  path_resolve :: "string \<Rightarrow> string"
  path_basename :: "string \<Rightarrow> string"
  path_join :: "string \<Rightarrow> string \<Rightarrow> string"
  fs_stat :: "string \<Rightarrow> fs_kind option"
  json_stringify :: "js_item \<Rightarrow> string"
  archiver_finalize :: "archive_entry list \<Rightarrow> js_error + string"

definition existsSync :: "node \<Rightarrow> string \<Rightarrow> bool" where
  "existsSync node p = (fs_stat node p \<noteq> None)"

text \<open>
  The errors the engine itself throws: \<open>'filename' in null\<close>, \<open>null.filename\<close> and
  \<open>statSync\<close> of a missing path (whose code is the string \<open>'ENOENT'\<close>, no number).
\<close>

definition in_null_error :: js_error where
  "in_null_error =
     JsError (Some ''Cannot use 'in' operator to search for 'filename' in null'') None"

definition null_filename_error :: js_error where
  "null_filename_error =
     JsError (Some ''Cannot read properties of null (reading 'filename')'') None"

definition enoent_error :: "string \<Rightarrow> js_error" where
  "enoent_error p =
     JsError (Some (''ENOENT: no such file or directory, stat '' @ [CHR 0x27] @ p
                      @ [CHR 0x27])) None"

text \<open>The callback of \<open>files.forEach\<close> in \<open>zipFiles\<close>, for one item.\<close>

fun zip_item :: "node \<Rightarrow> js_item \<Rightarrow> js_error + archive_entry" where
  "zip_item node (JObject (Some filename) (Some content)) = Inr (Append content filename)"
| "zip_item node JNull = Inl in_null_error"
| "zip_item node (JString file) =
     (let pathInput = (if js_startsWith file ''/c'' then ''/mnt'' @ file else file);
          filePath = path_resolve node pathInput
      in case fs_stat node filePath of
           None \<Rightarrow> Inl (new_Error (''File or directory not found: '' @ filePath))
         | Some Directory \<Rightarrow> Inr (AddDirectory filePath None)
         | Some RegularFile \<Rightarrow> Inr (AddFile filePath (path_basename node filePath)))"
| "zip_item node file = Inl (new_Error (''Invalid file format: '' @ json_stringify node file))"

fun zip_forEach :: "node \<Rightarrow> js_item list \<Rightarrow> archive_entry list \<Rightarrow> js_error + archive_entry list"
where
  "zip_forEach node [] archive = Inr archive"
| "zip_forEach node (file # files) archive =
     (case zip_item node file of
        Inl e \<Rightarrow> Inl e
      | Inr entry \<Rightarrow> zip_forEach node files (archive @ [entry]))"

definition zipFiles :: "node \<Rightarrow> js_item list \<Rightarrow> bool \<Rightarrow> string io" where
  "zipFiles node files progressCallback =
     io_bind (logAndProgress ''Creating in-memory zip archive...'' progressCallback Info)
       (\<lambda>_. case zip_forEach node files [] of
               Inl e \<Rightarrow> io_throw e
             | Inr archive \<Rightarrow>
                 (case archiver_finalize node archive of
                    Inl err \<Rightarrow> io_throw err
                  | Inr buffer \<Rightarrow>
                      io_bind (logAndProgress (''Files zipped successfully. Total size: ''
                                 @ show_nat (length buffer) @ '' bytes'') progressCallback Info)
                        (\<lambda>_. io_return buffer)))"

text \<open>
  deploy, the block that sets \<open>hasDockerfile\<close>. The \<open>for\<close> loop over the items looks
  at the base name of a string and of a truthy \<open>filename\<close>, and breaks at the first match.
\<close>

fun hasDockerfile_loop :: "node \<Rightarrow> js_item list \<Rightarrow> js_error + bool" where
  "hasDockerfile_loop node [] = Inr False"
| "hasDockerfile_loop node (JString file # files) =
     (if toLowerCase (path_basename node file) = ''dockerfile'' then Inr True
      else hasDockerfile_loop node files)"
| "hasDockerfile_loop node (JNull # files) = Inl null_filename_error"
| "hasDockerfile_loop node (JObject filename content # files) =
     (if truthy filename \<and> toLowerCase (path_basename node (js_str filename)) = ''dockerfile''
      then Inr True
      else hasDockerfile_loop node files)"
| "hasDockerfile_loop node (JPrimitive v # files) = hasDockerfile_loop node files"

definition deploy_hasDockerfile :: "node \<Rightarrow> js_item list \<Rightarrow> js_error + bool" where
  "deploy_hasDockerfile node files =
     (case files of
        [JString dir] \<Rightarrow>
          (case fs_stat node dir of
             None \<Rightarrow> Inl (enoent_error dir)
           | Some Directory \<Rightarrow>
               Inr (existsSync node (path_join node dir ''Dockerfile'')
                    \<or> existsSync node (path_join node dir ''dockerfile''))
           | Some RegularFile \<Rightarrow> hasDockerfile_loop node files)
      | _ \<Rightarrow> hasDockerfile_loop node files)"

section \<open>Vocabulary of the properties, and concrete backends\<close>

text \<open>An outcome the retry loop takes for a propagation delay: a failure with code 7.\<close>

definition retryable :: "js_error + 'a \<Rightarrow> bool" where
  "retryable x = (case x of Inl e \<Rightarrow> code e = Some 7 | Inr v \<Rightarrow> False)"

text \<open>The wait before retry \<open>n\<close>, as the loop computes it.\<close>

definition backoff_ms :: "nat \<Rightarrow> nat" where
  "backoff_ms n = (if n = 1 then 15000 else 1000 * 2 ^ (n - 2))"

text \<open>
  What \<open>callWithRetry\<close> adds to the trace when \<open>k\<close> invocations fail with code 7 and
  invocation \<open>k + 1\<close> ends the loop: call, warning, timer, ..., call.
\<close>

fun retry_events :: "rpc \<Rightarrow> string \<Rightarrow> nat \<Rightarrow> nat \<Rightarrow> event list" where
  "retry_events r d j 0 = [Call r]"
| "retry_events r d j (Suc k) =
     [Call r, Console Warn (retry_warning d (backoff_ms (Suc j)) (Suc j)), Sleep (backoff_ms (Suc j))]
       @ retry_events r d (Suc j) k"

text \<open>Concrete errors and outcome sequences: \<open>k\<close> failures with code 7, then \<open>final\<close>.\<close>

definition denied :: js_error where
  "denied = JsError (Some ''7 PERMISSION_DENIED'') (Some 7)"

definition not_found :: js_error where
  "not_found = JsError (Some ''5 NOT_FOUND'') (Some 5)"

definition flaky :: "nat \<Rightarrow> js_error + 'a \<Rightarrow> nat \<Rightarrow> js_error + 'a" where
  "flaky k final i = (if i < k then Inl denied else final)"

text \<open>The full name \<open>ensureApisEnabled\<close> builds for a capability.\<close>

definition api_path :: "string \<Rightarrow> string \<Rightarrow> string" where
  "api_path projectId api = ''projects/'' @ projectId @ ''/services/'' @ api"

text \<open>
  What a run of the loop over \<open>apis\<close> adds to the trace when every call succeeds and
  the \<open>getService\<close> calls made before it number \<open>n\<close>.
\<close>

fun enable_events :: "backend \<Rightarrow> string \<Rightarrow> bool \<Rightarrow> nat \<Rightarrow> string list \<Rightarrow> event list" where
  "enable_events c pid cb n [] = []"
| "enable_events c pid cb n (api # apis) =
     Call (GetService (api_path pid api))
       # (if getService_r c n \<noteq> Inr ''ENABLED''
          then console_and_progress Info (''API ['' @ api @ ''] is not enabled. Enabling...'') cb
                 @ [Call (EnableService (api_path pid api)), Call EnablePromise]
          else [])
       @ enable_events c pid cb (Suc n) apis"

definition all_succeed :: "backend \<Rightarrow> bool" where
  "all_succeed c = ((\<forall>i. \<exists>st. getService_r c i = Inr st)
     \<and> (\<forall>i. enableService_r c i = Inr ()) \<and> (\<forall>i. enablePromise_r c i = Inr ()))"

text \<open>A backend where everything is enabled, exists nowhere yet and succeeds at once.\<close>

definition quiet_backend :: backend where
  "quiet_backend = \<lparr>
     getService_r = (\<lambda>i. Inr ''ENABLED''),
     enableService_r = (\<lambda>i. Inr ()),
     enablePromise_r = (\<lambda>i. Inr ()),
     createBuild_r = (\<lambda>i. Inr ''b-1''),
     getBuild_r = (\<lambda>i. Inr \<lparr>build_status = ''SUCCESS'', build_images = [''img''],
                            build_logUrl = Some ''https://logs/b-1''\<rparr>),
     getEntries_r = (\<lambda>i. Inr (Some [])),
     serviceExists_r = (\<lambda>i. Inr False),
     createService_r = (\<lambda>i. Inr ()),
     updateService_r = (\<lambda>i. Inr ()),
     deployPromise_r = (\<lambda>i. Inr \<lparr>uri = Some ''https://svc.run.app''\<rparr>),
     runClient_locationPath = (\<lambda>p l. ''projects/'' @ p @ ''/locations/'' @ l),
     runClient_servicePath =
       (\<lambda>p l s. ''projects/'' @ p @ ''/locations/'' @ l @ ''/services/'' @ s),
     date_now = 1700000000000\<rparr>"

text \<open>Only the second capability asked about is enabled already.\<close>

definition c5_backend :: backend where
  "c5_backend =
     quiet_backend\<lparr>getService_r := (\<lambda>i. if i = 1 then Inr ''ENABLED'' else Inr ''DISABLED'')\<rparr>"

text \<open>
  The first capability is enabled; every later \<open>getService\<close> fails with NOT_FOUND
  (\<open>c7_backend\<close>), or only the second \<open>getService\<close> does (\<open>c7_backend_once\<close>).
\<close>

definition c7_backend :: backend where
  "c7_backend =
     quiet_backend\<lparr>getService_r := (\<lambda>i. if i = 0 then Inr ''ENABLED'' else Inl not_found)\<rparr>"

definition c7_backend_once :: backend where
  "c7_backend_once =
     quiet_backend\<lparr>getService_r := (\<lambda>i. if i = 1 then Inl not_found else Inr ''ENABLED'')\<rparr>"

text \<open>
  The status the \<open>i\<close>-th \<open>getBuild\<close> reports, and what the polling loop adds to the
  trace when \<open>k\<close> rounds see a status outside the five and round \<open>k + 1\<close> ends it.
\<close>

definition status_at :: "backend \<Rightarrow> nat \<Rightarrow> string" where
  "status_at c i = (case getBuild_r c i of Inl e \<Rightarrow> [] | Inr w \<Rightarrow> build_status w)"

fun poll_events :: "backend \<Rightarrow> string \<Rightarrow> string \<Rightarrow> bool \<Rightarrow> nat \<Rightarrow> nat \<Rightarrow> event list" where
  "poll_events c pid bid cb n 0 = [Call (GetBuild pid bid)]"
| "poll_events c pid bid cb n (Suc k) =
     Call (GetBuild pid bid)
       # log_events (''Build status: '' @ status_at c n @ ''. Waiting...'') cb Debug
       @ [Sleep 5000]
       @ poll_events c pid bid cb (Suc n) k"

text \<open>The request \<open>triggerCloudBuild\<close> submits, and its trace up to the polling loop.\<close>

definition build_request_of :: "string \<Rightarrow> string \<Rightarrow> string \<Rightarrow> bool \<Rightarrow> build_request" where
  "build_request_of bucket blob img df =
     \<lparr>source_bucket = bucket, source_object = blob, steps = build_steps img df,
      images = [img]\<rparr>"

definition submit_events ::
  "string \<Rightarrow> string \<Rightarrow> string \<Rightarrow> string \<Rightarrow> string \<Rightarrow> bool \<Rightarrow> bool \<Rightarrow> event list"
where
  "submit_events pid loc bucket blob img df cb =
     log_events (''Initiating Cloud Build for gs://'' @ bucket @ ''/'' @ blob @ '' in '' @ loc
                   @ ''...'') cb Info
       @ [Call (CreateBuild pid (build_request_of bucket blob img df))]
       @ log_events ''Cloud Build job started...'' cb Info"

text \<open>Builds as the backend reports them, and two backends for a build that is polled.\<close>

definition working_build :: build where
  "working_build = \<lparr>build_status = ''WORKING'', build_images = [], build_logUrl = None\<rparr>"

definition success_build :: build where
  "success_build =
     \<lparr>build_status = ''SUCCESS'', build_images = [''r-docker.pkg.dev/p/repo/s:latest''],
      build_logUrl = Some ''https://logs/b-1''\<rparr>"

definition failed_build :: build where
  "failed_build =
     \<lparr>build_status = ''FAILURE'', build_images = [], build_logUrl = Some ''https://logs/b-1''\<rparr>"

definition c4_backend :: backend where
  "c4_backend =
     quiet_backend\<lparr>getBuild_r := (\<lambda>i. if i < 2 then Inr working_build else Inr success_build)\<rparr>"

definition c2_backend_logs :: backend where
  "c2_backend_logs =
     quiet_backend\<lparr>getBuild_r := (\<lambda>i. Inr failed_build),
                    getEntries_r := (\<lambda>i. Inr (Some [Some ''step 2 failed'', Some ''step 1 ok'']))\<rparr>"

definition c2_backend_nologs :: backend where
  "c2_backend_nologs =
     quiet_backend\<lparr>getBuild_r := (\<lambda>i. Inr failed_build),
                    getEntries_r := (\<lambda>i. Inl not_found)\<rparr>"

text \<open>
  The message of the error a failed build ends with, given what the log fetch
  (\<open>getEntries\<close> under \<open>callWithRetry\<close>) came to.
\<close>

definition failure_message :: "string \<Rightarrow> build \<Rightarrow> js_error + log_entry list option \<Rightarrow> string" where
  "failure_message bid b fetched =
     ''Build '' @ bid @ '' failed.''
       @ (case fetched of
            Inr (Some (e # es)) \<Rightarrow> lines_snippet bid (log_lines (e # es))
          | _ \<Rightarrow> default_snippet b)"

text \<open>
  The service definition \<open>deployToCloudRun\<close> starts from, the real call it makes for a
  definition, and the real calls (those without \<open>validateOnly\<close>) of a trace.
\<close>

definition initial_service :: "backend \<Rightarrow> string \<Rightarrow> string \<Rightarrow> bool \<Rightarrow> run_service" where
  "initial_service c sid img skip =
     \<lparr>template_revision = sid @ ''-'' @ show_nat (date_now c), template_image = img,
      labels = [(''created-by'', ''cloud-run-mcp'')],
      invokerIamDisabled = skip, service_name = None\<rparr>"

definition real_call ::
  "backend \<Rightarrow> string \<Rightarrow> string \<Rightarrow> string \<Rightarrow> bool \<Rightarrow> run_service \<Rightarrow> rpc"
where
  "real_call c pid loc sid ex svc =
     (if ex then UpdateService (svc\<lparr>service_name := Some (runClient_servicePath c pid loc sid)\<rparr>)
                  False
      else CreateService (runClient_locationPath c pid loc) svc sid False)"

definition is_real_mutation :: "rpc \<Rightarrow> bool" where
  "is_real_mutation r =
     (case r of CreateService p s i v \<Rightarrow> v = False | UpdateService s v \<Rightarrow> v = False
      | _ \<Rightarrow> False)"

definition real_mutations :: "trace \<Rightarrow> rpc list" where
  "real_mutations tr = filter is_real_mutation (calls tr)"

text \<open>
  Errors of a dry run, and backends whose first \<open>createService\<close> (or \<open>updateService\<close>)
  call, the dry run, fails with one of them.
\<close>

definition invalid_argument_empty :: js_error where
  "invalid_argument_empty = JsError (Some []) (Some 3)"

definition invalid_argument_absent :: js_error where
  "invalid_argument_absent = JsError None (Some 3)"

definition invoker_rejected :: js_error where
  "invoker_rejected = JsError (Some ''Field invokerIamDisabled is not allowed'') (Some 9)"

definition quota_exceeded :: js_error where
  "quota_exceeded = JsError (Some ''Quota exceeded'') (Some 8)"

definition c1_cex_backend :: backend where
  "c1_cex_backend = quiet_backend\<lparr>createService_r := (\<lambda>i. Inl invalid_argument_empty)\<rparr>"

definition c1_backend :: backend where
  "c1_backend =
     quiet_backend\<lparr>createService_r := (\<lambda>i. if i = 0 then Inl invoker_rejected else Inr ())\<rparr>"

definition c1_backend_other :: backend where
  "c1_backend_other = quiet_backend\<lparr>createService_r := (\<lambda>i. Inl quota_exceeded)\<rparr>"

definition c10_backend :: backend where
  "c10_backend =
     quiet_backend\<lparr>serviceExists_r := (\<lambda>i. Inr True),
                    updateService_r := (\<lambda>i. Inl invalid_argument_absent)\<rparr>"

text \<open>
  An item that names a Dockerfile for the loop of \<open>deploy\<close>: the base name of a path
  string, or of a non-empty \<open>filename\<close>, is \<open>dockerfile\<close> once in lower case.
\<close>

fun names_dockerfile :: "node \<Rightarrow> js_item \<Rightarrow> bool" where
  "names_dockerfile node (JString p) = (toLowerCase (path_basename node p) = ''dockerfile'')"
| "names_dockerfile node (JObject (Some f) content) =
     (f \<noteq> [] \<and> toLowerCase (path_basename node f) = ''dockerfile'')"
| "names_dockerfile node item = False"

text \<open>
  A case-sensitive file system (Linux), given by its absolute paths: \<open>stat\<close> finds a path
  only as it is spelled. \<open>dir_entries\<close> are the names directly under a directory.
\<close>

definition posix_basename :: "string \<Rightarrow> string" where
  "posix_basename p = rev (takeWhile (\<lambda>ch. ch \<noteq> CHR ''/'') (rev p))"

definition dir_entries :: "(string \<times> fs_kind) list \<Rightarrow> string \<Rightarrow> string list" where
  "dir_entries files dir =
     map (\<lambda>(p, k). drop (length dir + 1) p)
       (filter (\<lambda>(p, k). take (length dir + 1) p = dir @ ''/''
                          \<and> CHR ''/'' \<notin> set (drop (length dir + 1) p)) files)"

definition posix_node :: "(string \<times> fs_kind) list \<Rightarrow> node" where
  "posix_node files =
     \<lparr>path_resolve = (\<lambda>p. p),
      path_basename = posix_basename,
      path_join = (\<lambda>a b. a @ ''/'' @ b),
      fs_stat = map_of files,
      json_stringify = (\<lambda>item. case item of JPrimitive v \<Rightarrow> v | _ \<Rightarrow> ''{}''),
      archiver_finalize = (\<lambda>entries. Inr ''PK'')\<rparr>"

definition upper_only_fs :: "(string \<times> fs_kind) list" where
  "upper_only_fs = [(''/app'', Directory), (''/app/DOCKERFILE'', RegularFile),
                    (''/app/main.go'', RegularFile)]"

definition usual_fs :: "(string \<times> fs_kind) list" where
  "usual_fs = [(''/app'', Directory), (''/app/Dockerfile'', RegularFile),
               (''/app/main.go'', RegularFile)]"

section \<open>Properties\<close>

subsection \<open>The retry executor\<close>

declare callWithRetry_loop.simps [simp del]

lemma ncalls_append: "ncalls m (tr @ evs) = ncalls m tr + ncalls m evs"
  by (simp add: ncalls_def)

lemma ncalls_simps:
  "ncalls m [] = 0"
  "ncalls m (Call r # tr) = (if method_of r = m then Suc (ncalls m tr) else ncalls m tr)"
  "ncalls m (Sleep n # tr) = ncalls m tr"
  "ncalls m (Console l s # tr) = ncalls m tr"
  "ncalls m (Progress l s # tr) = ncalls m tr"
  by (simp_all add: ncalls_def is_call_def)

lemma sleeps_simps:
  "sleeps [] = []"
  "sleeps (Call r # tr) = sleeps tr"
  "sleeps (Sleep n # tr) = n # sleeps tr"
  "sleeps (Console l s # tr) = sleeps tr"
  "sleeps (Progress l s # tr) = sleeps tr"
  "sleeps (tr @ tr') = sleeps tr @ sleeps tr'"
  by (simp_all add: sleeps_def)

lemma calls_simps:
  "calls [] = []"
  "calls (Call r # tr) = r # calls tr"
  "calls (Sleep n # tr) = calls tr"
  "calls (Console l s # tr) = calls tr"
  "calls (Progress l s # tr) = calls tr"
  "calls (tr @ tr') = calls tr @ calls tr'"
  by (simp_all add: calls_def)

lemma callWithRetry_loop_run:
  "j + k \<le> 7 \<Longrightarrow>
   (\<forall>i<k. retryable (answers (ncalls (method_of r) tr + i))) \<Longrightarrow>
   j + k = 7 \<or> \<not> retryable (answers (ncalls (method_of r) tr + k)) \<Longrightarrow>
   callWithRetry_loop (remote r answers) d j tr =
     (answers (ncalls (method_of r) tr + k), tr @ retry_events r d j k)"
proof (induction k arbitrary: j tr)
  case 0
  then show ?case
    by (subst callWithRetry_loop.simps)
       (auto simp: remote_def retryable_def maxRetries_def split: sum.splits)
next
  case (Suc k)
  let ?n = "ncalls (method_of r) tr"
  from Suc.prems(2) have r0: "retryable (answers ?n)" by force
  then obtain e where e: "answers ?n = Inl e" "code e = Some 7"
    by (auto simp: retryable_def split: sum.splits)
  let ?tr1 = "(tr @ [Call r]) @ [Console Warn (retry_warning d (backoff_ms (Suc j)) (Suc j)), Sleep (backoff_ms (Suc j))]"
  have n1: "ncalls (method_of r) ?tr1 = Suc ?n"
    by (simp add: ncalls_append ncalls_simps)
  have step: "callWithRetry_loop (remote r answers) d j tr =
      callWithRetry_loop (remote r answers) d (Suc j) ?tr1"
    using e Suc.prems(1)
    by (subst callWithRetry_loop.simps)
       (simp add: remote_def maxRetries_def initialBackoff_def backoff_ms_def Let_def)
  have "callWithRetry_loop (remote r answers) d (Suc j) ?tr1 =
     (answers (ncalls (method_of r) ?tr1 + k), ?tr1 @ retry_events r d (Suc j) k)"
  proof (rule Suc.IH)
    show "Suc j + k \<le> 7" using Suc.prems(1) by simp
    show "\<forall>i<k. retryable (answers (ncalls (method_of r) ?tr1 + i))"
      using Suc.prems(2) unfolding n1 by auto
    show "Suc j + k = 7 \<or> \<not> retryable (answers (ncalls (method_of r) ?tr1 + k))"
      using Suc.prems(3) unfolding n1 by auto
  qed
  then show ?case unfolding step n1 by simp
qed

lemma callWithRetry_run:
  "k \<le> 7 \<Longrightarrow>
   (\<forall>i<k. retryable (answers (ncalls (method_of r) tr + i))) \<Longrightarrow>
   k = 7 \<or> \<not> retryable (answers (ncalls (method_of r) tr + k)) \<Longrightarrow>
   callWithRetry (remote r answers) d tr =
     (answers (ncalls (method_of r) tr + k), tr @ retry_events r d 0 k)"
  unfolding callWithRetry_def using callWithRetry_loop_run [of 0 k answers r tr d] by simp

lemma ncalls_retry_events: "ncalls (method_of r) (retry_events r d j k) = Suc k"
  by (induction k arbitrary: j) (simp_all add: ncalls_simps ncalls_append)

lemma sleeps_retry_events:
  "sleeps (retry_events r d j k) = map backoff_ms [Suc j..<Suc (j + k)]"
proof (induction k arbitrary: j)
  case 0
  then show ?case by (simp add: sleeps_simps)
next
  case (Suc k)
  have "[Suc j..<Suc (j + Suc k)] = Suc j # [Suc (Suc j)..<Suc (Suc j + k)]"
    by (simp add: upt_conv_Cons)
  then show ?case using Suc.IH [of "Suc j"] by (simp add: sleeps_simps)
qed

text \<open>
  Claim C3. The wrapped operation answers its \<open>i\<close>-th invocation with \<open>outcomes i\<close>.
  When at most 7 failures with code 7 are followed by a success, \<open>callWithRetry\<close>
  returns the value of that success. When the first 8 invocations all fail with code 7
  (more than 7 such failures), the error of the 8th invocation is what is thrown, and
  there is no 9th invocation. When at most 7 failures with code 7 are followed by a
  failure with any other code (or none), that error itself is thrown, and the operation
  is not invoked again.
\<close>

theorem callWithRetry_outcome_sequences:
  fixes outcomes :: "nat \<Rightarrow> js_error + 'a"
  shows
  "(k \<le> 7 \<and> (\<forall>i<k. retryable (outcomes (ncalls MOperation tr + i)))
      \<and> outcomes (ncalls MOperation tr + k) = Inr v
      \<longrightarrow> fst (callWithRetry (remote (Operation d) outcomes) d tr) = Inr v)
   \<and> ((\<forall>i<8. retryable (outcomes (ncalls MOperation tr + i)))
      \<longrightarrow> fst (callWithRetry (remote (Operation d) outcomes) d tr)
            = outcomes (ncalls MOperation tr + 7)
        \<and> ncalls MOperation (snd (callWithRetry (remote (Operation d) outcomes) d tr))
            = ncalls MOperation tr + 8)
   \<and> (k \<le> 7 \<and> (\<forall>i<k. retryable (outcomes (ncalls MOperation tr + i)))
      \<and> outcomes (ncalls MOperation tr + k) = Inl e \<and> code e \<noteq> Some 7
      \<longrightarrow> fst (callWithRetry (remote (Operation d) outcomes) d tr) = Inl e
        \<and> ncalls MOperation (snd (callWithRetry (remote (Operation d) outcomes) d tr))
            = ncalls MOperation tr + k + 1)"
proof (intro conjI impI)
  assume a: "k \<le> 7 \<and> (\<forall>i<k. retryable (outcomes (ncalls MOperation tr + i)))
      \<and> outcomes (ncalls MOperation tr + k) = Inr v"
  then have "\<not> retryable (outcomes (ncalls MOperation tr + k))"
    by (simp add: retryable_def)
  with a show "fst (callWithRetry (remote (Operation d) outcomes) d tr) = Inr v"
    using callWithRetry_run [of k outcomes "Operation d" tr d] by simp
next
  assume a: "\<forall>i<8. retryable (outcomes (ncalls MOperation tr + i))"
  then have run: "callWithRetry (remote (Operation d) outcomes) d tr =
     (outcomes (ncalls MOperation tr + 7), tr @ retry_events (Operation d) d 0 7)"
    using callWithRetry_run [of 7 outcomes "Operation d" tr d] by simp
  show "fst (callWithRetry (remote (Operation d) outcomes) d tr)
            = outcomes (ncalls MOperation tr + 7)"
    by (simp add: run)
  show "ncalls MOperation (snd (callWithRetry (remote (Operation d) outcomes) d tr))
            = ncalls MOperation tr + 8"
    using ncalls_retry_events [of "Operation d" d 0 7] by (simp add: run ncalls_append)
next
  assume a: "k \<le> 7 \<and> (\<forall>i<k. retryable (outcomes (ncalls MOperation tr + i)))
      \<and> outcomes (ncalls MOperation tr + k) = Inl e \<and> code e \<noteq> Some 7"
  then have "\<not> retryable (outcomes (ncalls MOperation tr + k))"
    by (simp add: retryable_def)
  with a have run: "callWithRetry (remote (Operation d) outcomes) d tr =
     (Inl e, tr @ retry_events (Operation d) d 0 k)"
    using callWithRetry_run [of k outcomes "Operation d" tr d] by simp
  show "fst (callWithRetry (remote (Operation d) outcomes) d tr) = Inl e"
    by (simp add: run)
  show "ncalls MOperation (snd (callWithRetry (remote (Operation d) outcomes) d tr))
            = ncalls MOperation tr + k + 1"
    using ncalls_retry_events [of "Operation d" d 0 k] by (simp add: run ncalls_append)
qed

theorem callWithRetry_outcome_sequences_witness:
  "fst (callWithRetry (remote (Operation ''op'') (flaky 7 (Inr (42::nat)))) ''op'' []) = Inr 42
   \<and> fst (callWithRetry (remote (Operation ''op'') (flaky 9 (Inr (42::nat)))) ''op'' []) = Inl denied
   \<and> ncalls MOperation (snd (callWithRetry (remote (Operation ''op'') (flaky 9 (Inr (42::nat)))) ''op'' [])) = 8
   \<and> fst (callWithRetry (remote (Operation ''op'') (flaky 2 (Inl not_found :: js_error + nat))) ''op'' []) = Inl not_found
   \<and> ncalls MOperation (snd (callWithRetry (remote (Operation ''op'') (flaky 2 (Inl not_found :: js_error + nat))) ''op'' [])) = 3"
proof -
  have a: "fst (callWithRetry (remote (Operation ''op'') (flaky 7 (Inr (42::nat)))) ''op'' []) = Inr 42"
    using callWithRetry_outcome_sequences [of 7 "flaky 7 (Inr (42::nat))" "[]" 42 "''op''"]
    by (simp add: flaky_def retryable_def denied_def ncalls_simps)
  have b: "fst (callWithRetry (remote (Operation ''op'') (flaky 9 (Inr (42::nat)))) ''op'' []) = Inl denied
     \<and> ncalls MOperation (snd (callWithRetry (remote (Operation ''op'') (flaky 9 (Inr (42::nat)))) ''op'' [])) = 8"
    using callWithRetry_outcome_sequences [of 0 "flaky 9 (Inr (42::nat))" "[]" 42 "''op''"]
    by (simp add: flaky_def retryable_def denied_def ncalls_simps)
  have c: "fst (callWithRetry (remote (Operation ''op'') (flaky 2 (Inl not_found :: js_error + nat))) ''op'' []) = Inl not_found
   \<and> ncalls MOperation (snd (callWithRetry (remote (Operation ''op'') (flaky 2 (Inl not_found :: js_error + nat))) ''op'' [])) = 3"
    using callWithRetry_outcome_sequences [of 2 "flaky 2 (Inl not_found :: js_error + nat)" "[]" _ "''op''" not_found]
    by (simp add: flaky_def retryable_def denied_def not_found_def ncalls_simps)
  from a b c show ?thesis by simp
qed

text \<open>
  Claim C6. In a run of \<open>callWithRetry\<close> with \<open>k\<close> retries (\<open>k \<le> 7\<close> failures with
  code 7, then an outcome that ends the loop), the timers are, in order, 15000 ms for
  the first retry and \<open>1000 * 2 ^ (n - 2)\<close> ms for retry \<open>n \<ge> 2\<close>; each stands between
  the failed invocation and the next one.
\<close>

theorem callWithRetry_backoff_schedule:
  "k \<le> 7 \<Longrightarrow>
   (\<forall>i<k. retryable (outcomes (ncalls MOperation tr + i))) \<Longrightarrow>
   k = 7 \<or> \<not> retryable (outcomes (ncalls MOperation tr + k)) \<Longrightarrow>
   sleeps (drop (length tr) (snd (callWithRetry (remote (Operation d) outcomes) d tr)))
     = map (\<lambda>n. if n = 1 then 15000 else 1000 * 2 ^ (n - 2)) [1..<Suc k]
   \<and> snd (callWithRetry (remote (Operation d) outcomes) d tr)
     = tr @ retry_events (Operation d) d 0 k"
proof -
  assume a: "k \<le> 7" "\<forall>i<k. retryable (outcomes (ncalls MOperation tr + i))"
    "k = 7 \<or> \<not> retryable (outcomes (ncalls MOperation tr + k))"
  have run: "callWithRetry (remote (Operation d) outcomes) d tr =
     (outcomes (ncalls MOperation tr + k), tr @ retry_events (Operation d) d 0 k)"
    using callWithRetry_run [of k outcomes "Operation d" tr d] a by simp
  have "backoff_ms = (\<lambda>n. if n = 1 then 15000 else 1000 * 2 ^ (n - 2))"
    by (rule ext) (simp add: backoff_ms_def)
  then show ?thesis
    using sleeps_retry_events [of "Operation d" d 0 k] by (simp add: run)
qed

theorem callWithRetry_backoff_schedule_witness:
  "sleeps (drop (length ([] :: trace))
     (snd (callWithRetry (remote (Operation ''op'') (flaky 9 (Inr (0::nat)))) ''op'' [])))
     = [15000, 1000, 2000, 4000, 8000, 16000, 32000]
   \<and> sleeps (drop (length ([] :: trace))
     (snd (callWithRetry (remote (Operation ''op'') (flaky 2 (Inr (0::nat)))) ''op'' [])))
     = [15000, 1000]"
proof -
  have a: "sleeps (drop (length ([] :: trace))
     (snd (callWithRetry (remote (Operation ''op'') (flaky 9 (Inr (0::nat)))) ''op'' [])))
     = [15000, 1000, 2000, 4000, 8000, 16000, 32000]"
    using callWithRetry_backoff_schedule [of 7 "flaky 9 (Inr (0::nat))" "[]" "''op''", THEN conjunct1]
    by (simp add: flaky_def retryable_def denied_def ncalls_simps upt_rec)
  have b: "sleeps (drop (length ([] :: trace))
     (snd (callWithRetry (remote (Operation ''op'') (flaky 2 (Inr (0::nat)))) ''op'' [])))
     = [15000, 1000]"
    using callWithRetry_backoff_schedule [of 2 "flaky 2 (Inr (0::nat))" "[]" "''op''", THEN conjunct1]
    by (simp add: flaky_def retryable_def denied_def ncalls_simps upt_rec)
  from a b show ?thesis by simp
qed

lemma callWithRetry_first:
  "\<not> retryable (answers (ncalls (method_of r) tr)) \<Longrightarrow>
   callWithRetry (remote r answers) d tr = (answers (ncalls (method_of r) tr), tr @ [Call r])"
  using callWithRetry_run [of 0 answers r tr d] by simp

lemma retryable_Inr [simp]: "\<not> retryable (Inr v)"
  by (simp add: retryable_def)

lemma ncalls_console_and_progress [simp]: "ncalls m (console_and_progress lvl msg cb) = 0"
  by (simp add: console_and_progress_def ncalls_simps)

lemma sleeps_console_and_progress [simp]: "sleeps (console_and_progress lvl msg cb) = []"
  by (simp add: console_and_progress_def sleeps_simps)

lemma calls_console_and_progress [simp]: "calls (console_and_progress lvl msg cb) = []"
  by (simp add: console_and_progress_def calls_simps)

subsection \<open>The activation gate when every call succeeds\<close>

lemma checkAndEnableApi_ok:
  assumes "getService_r c (ncalls MGetService tr) = Inr st"
    and "enableService_r c (ncalls MEnableService tr) = Inr ()"
    and "enablePromise_r c (ncalls MEnablePromise tr) = Inr ()"
  shows "checkAndEnableApi c name api cb tr =
    (Inr (), tr @ Call (GetService name)
       # (if st \<noteq> ''ENABLED''
          then console_and_progress Info (''API ['' @ api @ ''] is not enabled. Enabling...'') cb
                 @ [Call (EnableService name), Call EnablePromise]
          else []))"
proof -
  have g: "\<And>d. callWithRetry (remote (GetService name) (getService_r c)) d tr
     = (Inr st, tr @ [Call (GetService name)])"
    using callWithRetry_first [of "getService_r c" "GetService name" tr] assms(1) by simp
  show ?thesis
  proof (cases "st = ''ENABLED''")
    case True
    then show ?thesis
      unfolding checkAndEnableApi_def by (simp add: io_bind_def g io_return_def)
  next
    case False
    define ann where
      "ann = console_and_progress Info (''API ['' @ api @ ''] is not enabled. Enabling...'') cb"
    let ?tr2 = "(tr @ [Call (GetService name)]) @ ann"
    have n2: "ncalls MEnableService ?tr2 = ncalls MEnableService tr"
      "ncalls MEnablePromise (?tr2 @ [Call (EnableService name)]) = ncalls MEnablePromise tr"
      by (simp_all add: ncalls_append ncalls_simps ann_def)
    have e: "\<And>d. callWithRetry (remote (EnableService name) (enableService_r c)) d ?tr2
       = (Inr (), ?tr2 @ [Call (EnableService name)])"
      using callWithRetry_first [of "enableService_r c" "EnableService name" ?tr2] assms(2) n2
      by simp
    have p: "remote EnablePromise (enablePromise_r c) (?tr2 @ [Call (EnableService name)])
       = (Inr (), (?tr2 @ [Call (EnableService name)]) @ [Call EnablePromise])"
      unfolding remote_def using assms(3) n2 by simp
    show ?thesis
      unfolding checkAndEnableApi_def ann_def [symmetric]
      using False
      by (simp add: io_bind_def g emit_def e [simplified] p [simplified])
  qed
qed

lemma ensureApisEnabled_loop_ok:
  "all_succeed c \<Longrightarrow>
   ensureApisEnabled_loop c pid cb apis tr =
     (Inr (), tr @ enable_events c pid cb (ncalls MGetService tr) apis)"
proof (induction apis arbitrary: tr)
  case Nil
  then show ?case by (simp add: io_return_def)
next
  case (Cons api apis)
  from Cons.prems obtain st where st: "getService_r c (ncalls MGetService tr) = Inr st"
    unfolding all_succeed_def by metis
  from Cons.prems have en: "enableService_r c (ncalls MEnableService tr) = Inr ()"
    "enablePromise_r c (ncalls MEnablePromise tr) = Inr ()"
    unfolding all_succeed_def by simp_all
  define evs where "evs = Call (GetService (api_path pid api))
       # (if st \<noteq> ''ENABLED''
          then console_and_progress Info (''API ['' @ api @ ''] is not enabled. Enabling...'') cb
                 @ [Call (EnableService (api_path pid api)), Call EnablePromise]
          else [])"
  have one: "checkAndEnableApi c (api_path pid api) api cb tr = (Inr (), tr @ evs)"
    unfolding evs_def using checkAndEnableApi_ok [OF st en] .
  have n: "ncalls MGetService (tr @ evs) = Suc (ncalls MGetService tr)"
    by (simp add: evs_def ncalls_append ncalls_simps)
  have "ensureApisEnabled_loop c pid cb (api # apis) tr
        = ensureApisEnabled_loop c pid cb apis (tr @ evs)"
    using one by (simp add: io_bind_def io_catch_def api_path_def Let_def)
  also have "\<dots> = (Inr (), (tr @ evs) @ enable_events c pid cb (Suc (ncalls MGetService tr)) apis)"
    using Cons.IH [OF Cons.prems, of "tr @ evs"] unfolding n .
  finally show ?case using st by (simp add: evs_def)
qed

lemma enable_calls_of_events:
  "filter (\<lambda>r. method_of r = MEnableService) (calls (enable_events c pid cb n apis)) =
     [EnableService (''projects/'' @ pid @ ''/services/'' @ api).
        (i, api) \<leftarrow> enumerate n apis, getService_r c i \<noteq> Inr ''ENABLED'']"
  by (induction apis arbitrary: n)
     (simp_all add: calls_simps api_path_def)

text \<open>
  Claim C5. When every \<open>getService\<close>, \<open>enableService\<close> and operation the backend
  answers succeeds, \<open>ensureApisEnabled\<close> succeeds, and its \<open>enableService\<close> calls are,
  in order, one for each position of the list whose fetched state (the answer to that
  position's \<open>getService\<close>) is not \<open>'ENABLED'\<close>, with that capability's name, and none
  for a position whose fetched state is \<open>'ENABLED'\<close>.
\<close>

theorem ensureApisEnabled_enable_calls:
  assumes "\<forall>i. \<exists>st. getService_r c i = Inr st"
    and "\<forall>i. enableService_r c i = Inr ()"
    and "\<forall>i. enablePromise_r c i = Inr ()"
  shows "fst (ensureApisEnabled c pid apis cb tr) = Inr ()
    \<and> filter (\<lambda>r. method_of r = MEnableService)
         (calls (drop (length tr) (snd (ensureApisEnabled c pid apis cb tr))))
       = [EnableService (''projects/'' @ pid @ ''/services/'' @ api).
            (i, api) \<leftarrow> enumerate (ncalls MGetService tr) apis,
            getService_r c i \<noteq> Inr ''ENABLED'']"
proof -
  have ok: "all_succeed c" using assms by (simp add: all_succeed_def)
  define start where
    "start = console_and_progress Info ''Checking and enabling required APIs...'' cb"
  define finish where
    "finish = console_and_progress Info ''All required APIs are enabled.'' cb"
  have n: "ncalls MGetService (tr @ start) = ncalls MGetService tr"
    by (simp add: start_def ncalls_append)
  have run: "ensureApisEnabled c pid apis cb tr =
     (Inr (), tr @ (start @ enable_events c pid cb (ncalls MGetService tr) apis @ finish))"
    unfolding ensureApisEnabled_def start_def [symmetric] finish_def [symmetric]
    using ensureApisEnabled_loop_ok [OF ok, of pid cb apis "tr @ start"] unfolding n
    by (simp add: io_bind_def emit_def)
  show ?thesis
    unfolding run by (simp add: calls_simps enable_calls_of_events start_def finish_def)
qed

theorem ensureApisEnabled_enable_calls_witness:
  "fst (ensureApisEnabled c5_backend ''p''
          [''iam.googleapis.com'', ''run.googleapis.com'', ''storage.googleapis.com''] True [])
     = Inr ()
   \<and> filter (\<lambda>r. method_of r = MEnableService)
        (calls (drop (length ([] :: trace)) (snd (ensureApisEnabled c5_backend ''p''
          [''iam.googleapis.com'', ''run.googleapis.com'', ''storage.googleapis.com''] True []))))
     = [EnableService ''projects/p/services/iam.googleapis.com'',
        EnableService ''projects/p/services/storage.googleapis.com'']"
  using ensureApisEnabled_enable_calls [of c5_backend "''p''"
          "[''iam.googleapis.com'', ''run.googleapis.com'', ''storage.googleapis.com'']" True "[]"]
  by (simp add: c5_backend_def quiet_backend_def ncalls_simps enumerate_eq_zip)

subsection \<open>The activation gate when a capability fails\<close>

lemma io_bind_assoc:
  "io_bind (io_bind m f) g = io_bind m (\<lambda>x. io_bind (f x) g)"
  by (rule ext) (simp add: io_bind_def split: prod.splits sum.splits)

lemma ensureApisEnabled_loop_append:
  "ensureApisEnabled_loop c pid cb (pre @ rest) =
     io_bind (ensureApisEnabled_loop c pid cb pre) (\<lambda>_. ensureApisEnabled_loop c pid cb rest)"
proof (induction pre)
  case Nil
  show ?case by (rule ext) (simp add: io_bind_def io_return_def)
next
  case (Cons api pre)
  show ?case by (simp add: Cons.IH io_bind_assoc Let_def)
qed

text \<open>
  Claim C7. Let the capabilities before \<open>api\<close> have been processed without error, and
  let the check-and-enable step of \<open>api\<close> fail. Then a 1000 ms timer runs (after the
  warning) and the step is run once more. When that run fails as well,
  \<open>ensureApisEnabled\<close> throws the error whose message names \<open>api\<close>, and the trace ends
  with the notice of that error: nothing is done for the capabilities after \<open>api\<close>.
  When that run succeeds there is no third run, and the loop goes on with the
  capabilities after \<open>api\<close>.
\<close>

theorem ensureApisEnabled_single_retry:
  assumes "ensureApisEnabled_loop c pid cb pre
             (tr @ console_and_progress Info ''Checking and enabling required APIs...'' cb)
           = (Inr (), tr1)"
    and "checkAndEnableApi c (''projects/'' @ pid @ ''/services/'' @ api) api cb tr1 = (Inl e1, tr2)"
  shows
    "(checkAndEnableApi c (''projects/'' @ pid @ ''/services/'' @ api) api cb
        (tr2 @ console_and_progress Warn
                 (''Failed to check/enable '' @ api @ '', retrying in 1s...'') cb
             @ [Sleep 1000]) = (Inl e2, tr3)
      \<longrightarrow> ensureApisEnabled c pid (pre @ api # post) cb tr =
            (Inl (new_Error (''Failed to ensure API ['' @ api
                               @ ''] is enabled after retry. Please check manually.'')),
             tr3 @ console_and_progress Err
                     (''Failed to ensure API ['' @ api
                        @ ''] is enabled after retry. Please check manually.'') cb))
     \<and> (checkAndEnableApi c (''projects/'' @ pid @ ''/services/'' @ api) api cb
        (tr2 @ console_and_progress Warn
                 (''Failed to check/enable '' @ api @ '', retrying in 1s...'') cb
             @ [Sleep 1000]) = (Inr (), tr3)
      \<longrightarrow> ensureApisEnabled c pid (pre @ api # post) cb tr =
            io_bind (ensureApisEnabled_loop c pid cb post)
              (\<lambda>_. emit (console_and_progress Info ''All required APIs are enabled.'' cb)) tr3)"
proof (intro conjI impI)
  define start where
    "start = console_and_progress Info ''Checking and enabling required APIs...'' cb"
  have pre: "ensureApisEnabled_loop c pid cb pre (tr @ start) = (Inr (), tr1)"
    using assms(1) by (simp add: start_def)
  have unfold: "ensureApisEnabled c pid (pre @ api # post) cb tr =
      io_bind (ensureApisEnabled_loop c pid cb (api # post))
        (\<lambda>_. emit (console_and_progress Info ''All required APIs are enabled.'' cb)) tr1"
    unfolding ensureApisEnabled_def start_def [symmetric] ensureApisEnabled_loop_append
    using pre by (simp add: io_bind_def emit_def)
  {
    assume second: "checkAndEnableApi c (''projects/'' @ pid @ ''/services/'' @ api) api cb
        (tr2 @ console_and_progress Warn
                 (''Failed to check/enable '' @ api @ '', retrying in 1s...'') cb
             @ [Sleep 1000]) = (Inl e2, tr3)"
    show "ensureApisEnabled c pid (pre @ api # post) cb tr =
            (Inl (new_Error (''Failed to ensure API ['' @ api
                               @ ''] is enabled after retry. Please check manually.'')),
             tr3 @ console_and_progress Err
                     (''Failed to ensure API ['' @ api
                        @ ''] is enabled after retry. Please check manually.'') cb)"
      unfolding unfold
      using assms(2) second
      by (simp add: Let_def io_bind_def io_catch_def emit_def io_throw_def
            ensure_failed_message_def)
  }
  {
    assume second: "checkAndEnableApi c (''projects/'' @ pid @ ''/services/'' @ api) api cb
        (tr2 @ console_and_progress Warn
                 (''Failed to check/enable '' @ api @ '', retrying in 1s...'') cb
             @ [Sleep 1000]) = (Inr (), tr3)"
    show "ensureApisEnabled c pid (pre @ api # post) cb tr =
            io_bind (ensureApisEnabled_loop c pid cb post)
              (\<lambda>_. emit (console_and_progress Info ''All required APIs are enabled.'' cb)) tr3"
      unfolding unfold
      using assms(2) second
      by (simp add: Let_def io_bind_def io_catch_def emit_def)
  }
qed

lemmas gate_eval =
  checkAndEnableApi_def io_bind_def io_catch_def io_return_def io_throw_def emit_def
  callWithRetry_first retryable_def ncalls_simps ncalls_append console_and_progress_def Let_def
  not_found_def

theorem ensureApisEnabled_single_retry_witness:
  "ensureApisEnabled c7_backend ''p'' [''a'', ''b'', ''c''] False [] =
     (Inl (new_Error ''Failed to ensure API [b] is enabled after retry. Please check manually.''),
      [Console Info ''Checking and enabling required APIs...'',
       Call (GetService ''projects/p/services/a''),
       Call (GetService ''projects/p/services/b''),
       Console Warn ''Failed to check/enable b, retrying in 1s...'',
       Sleep 1000,
       Call (GetService ''projects/p/services/b''),
       Console Err ''Failed to ensure API [b] is enabled after retry. Please check manually.''])
   \<and> ensureApisEnabled c7_backend_once ''p'' [''a'', ''b'', ''c''] False [] =
     (Inr (),
      [Console Info ''Checking and enabling required APIs...'',
       Call (GetService ''projects/p/services/a''),
       Call (GetService ''projects/p/services/b''),
       Console Warn ''Failed to check/enable b, retrying in 1s...'',
       Sleep 1000,
       Call (GetService ''projects/p/services/b''),
       Call (GetService ''projects/p/services/c''),
       Console Info ''All required APIs are enabled.''])"
proof -
  define tr1 where "tr1 = [Console Info ''Checking and enabling required APIs...'',
       Call (GetService ''projects/p/services/a'')]"
  define tr2 where "tr2 = tr1 @ [Call (GetService ''projects/p/services/b'')]"
  define tr3 where "tr3 = tr2 @ [Console Warn ''Failed to check/enable b, retrying in 1s...'',
       Sleep 1000, Call (GetService ''projects/p/services/b'')]"
  have p: "ensureApisEnabled_loop c7_backend ''p'' False [''a'']
             ([] @ console_and_progress Info ''Checking and enabling required APIs...'' False)
           = (Inr (), tr1)"
    by (simp add: tr1_def c7_backend_def quiet_backend_def gate_eval)
  have f: "checkAndEnableApi c7_backend (''projects/'' @ ''p'' @ ''/services/'' @ ''b'') ''b''
             False tr1 = (Inl not_found, tr2)"
    by (simp add: tr1_def tr2_def c7_backend_def quiet_backend_def gate_eval)
  have s: "checkAndEnableApi c7_backend (''projects/'' @ ''p'' @ ''/services/'' @ ''b'') ''b''
             False (tr2 @ console_and_progress Warn
                 (''Failed to check/enable '' @ ''b'' @ '', retrying in 1s...'') False
             @ [Sleep 1000]) = (Inl not_found, tr3)"
    by (simp add: tr1_def tr2_def tr3_def c7_backend_def quiet_backend_def gate_eval)
  have a: "ensureApisEnabled c7_backend ''p'' ([''a''] @ ''b'' # [''c'']) False [] =
     (Inl (new_Error (''Failed to ensure API ['' @ ''b''
                        @ ''] is enabled after retry. Please check manually.'')),
      tr3 @ console_and_progress Err
              (''Failed to ensure API ['' @ ''b''
                 @ ''] is enabled after retry. Please check manually.'') False)"
    using ensureApisEnabled_single_retry [OF p f, THEN conjunct1, rule_format, OF s] .
  have p': "ensureApisEnabled_loop c7_backend_once ''p'' False [''a'']
             ([] @ console_and_progress Info ''Checking and enabling required APIs...'' False)
           = (Inr (), tr1)"
    by (simp add: tr1_def c7_backend_once_def quiet_backend_def gate_eval)
  have f': "checkAndEnableApi c7_backend_once (''projects/'' @ ''p'' @ ''/services/'' @ ''b'')
             ''b'' False tr1 = (Inl not_found, tr2)"
    by (simp add: tr1_def tr2_def c7_backend_once_def quiet_backend_def gate_eval)
  have s': "checkAndEnableApi c7_backend_once (''projects/'' @ ''p'' @ ''/services/'' @ ''b'')
             ''b'' False (tr2 @ console_and_progress Warn
                 (''Failed to check/enable '' @ ''b'' @ '', retrying in 1s...'') False
             @ [Sleep 1000]) = (Inr (), tr3)"
    by (simp add: tr1_def tr2_def tr3_def c7_backend_once_def quiet_backend_def gate_eval)
  have b: "ensureApisEnabled c7_backend_once ''p'' ([''a''] @ ''b'' # [''c'']) False [] =
            io_bind (ensureApisEnabled_loop c7_backend_once ''p'' False [''c''])
              (\<lambda>_. emit (console_and_progress Info ''All required APIs are enabled.'' False)) tr3"
    using ensureApisEnabled_single_retry [OF p' f', THEN conjunct2, rule_format, OF s'] .
  have c: "io_bind (ensureApisEnabled_loop c7_backend_once ''p'' False [''c''])
              (\<lambda>_. emit (console_and_progress Info ''All required APIs are enabled.'' False)) tr3
           = (Inr (), tr3 @ [Call (GetService ''projects/p/services/c''),
                Console Info ''All required APIs are enabled.''])"
    by (simp add: tr1_def tr2_def tr3_def c7_backend_once_def quiet_backend_def gate_eval)
  show ?thesis
    using a b c by (simp add: tr1_def tr2_def tr3_def console_and_progress_def)
qed

subsection \<open>The build poller\<close>

lemma ncalls_log_events [simp]: "ncalls m (log_events msg cb lvl) = 0"
  by (simp add: log_events_def ncalls_simps)

lemma sleeps_log_events [simp]: "sleeps (log_events msg cb lvl) = []"
  by (simp add: log_events_def sleeps_simps)

lemma calls_log_events [simp]: "calls (log_events msg cb lvl) = []"
  by (simp add: log_events_def calls_simps)

lemma pollBuild_run:
  "(\<forall>i<k. \<exists>w. getBuild_r c (ncalls MGetBuild tr + i) = Inr w
        \<and> build_status w \<notin> set [''SUCCESS'', ''FAILURE'', ''INTERNAL_ERROR'', ''TIMEOUT'',
                                   ''CANCELLED'']) \<Longrightarrow>
   getBuild_r c (ncalls MGetBuild tr + k) = Inr b \<Longrightarrow>
   build_status b \<in> set [''SUCCESS'', ''FAILURE'', ''INTERNAL_ERROR'', ''TIMEOUT'',
                          ''CANCELLED''] \<Longrightarrow>
   pollBuild c pid bid cb tr =
     Some (Inr b, tr @ poll_events c pid bid cb (ncalls MGetBuild tr) k)"
proof (induction k arbitrary: tr)
  case 0
  have g: "\<And>d. callWithRetry (remote (GetBuild pid bid) (getBuild_r c)) d tr
            = (Inr b, tr @ [Call (GetBuild pid bid)])"
    using callWithRetry_first [of "getBuild_r c" "GetBuild pid bid" tr] "0.prems"(2) by simp
  show ?case
    using "0.prems"(3) by (subst pollBuild.simps) (simp add: g)
next
  case (Suc k)
  let ?n = "ncalls MGetBuild tr"
  from Suc.prems(1) obtain w where w: "getBuild_r c ?n = Inr w"
    "build_status w \<notin> set [''SUCCESS'', ''FAILURE'', ''INTERNAL_ERROR'', ''TIMEOUT'',
                              ''CANCELLED'']"
    by force
  have g: "\<And>d. callWithRetry (remote (GetBuild pid bid) (getBuild_r c)) d tr
            = (Inr w, tr @ [Call (GetBuild pid bid)])"
    using callWithRetry_first [of "getBuild_r c" "GetBuild pid bid" tr] w(1) by simp
  define tr1 where "tr1 = (tr @ [Call (GetBuild pid bid)])
      @ log_events (''Build status: '' @ build_status w @ ''. Waiting...'') cb Debug
      @ [Sleep 5000]"
  have n1: "ncalls MGetBuild tr1 = Suc ?n"
    by (simp add: tr1_def ncalls_append ncalls_simps)
  have step: "pollBuild c pid bid cb tr = pollBuild c pid bid cb tr1"
    using w(2) by (subst pollBuild.simps) (simp add: g tr1_def)
  have rest: "pollBuild c pid bid cb tr1 =
     Some (Inr b, tr1 @ poll_events c pid bid cb (ncalls MGetBuild tr1) k)"
  proof (rule Suc.IH)
    show "\<forall>i<k. \<exists>w. getBuild_r c (ncalls MGetBuild tr1 + i) = Inr w
        \<and> build_status w \<notin> set [''SUCCESS'', ''FAILURE'', ''INTERNAL_ERROR'', ''TIMEOUT'',
                                   ''CANCELLED'']"
      using Suc.prems(1) unfolding n1 by (metis Suc_less_eq add_Suc_shift)
    show "getBuild_r c (ncalls MGetBuild tr1 + k) = Inr b"
      using Suc.prems(2) unfolding n1 by simp
    show "build_status b \<in> set [''SUCCESS'', ''FAILURE'', ''INTERNAL_ERROR'', ''TIMEOUT'',
                                 ''CANCELLED'']"
      using Suc.prems(3) .
  qed
  have st: "status_at c ?n = build_status w"
    by (simp add: status_at_def w(1))
  show ?case
    unfolding step rest n1 by (simp add: tr1_def st)
qed

lemma sleeps_poll_events: "sleeps (poll_events c pid bid cb n k) = replicate k 5000"
  by (induction k arbitrary: n) (simp_all add: sleeps_simps)

lemma calls_poll_events:
  "calls (poll_events c pid bid cb n k) = replicate (Suc k) (GetBuild pid bid)"
  by (induction k arbitrary: n) (simp_all add: calls_simps)

lemma triggerCloudBuild_polled:
  assumes "createBuild_r c (ncalls MCreateBuild tr) = Inr bid"
    and "\<forall>i<k. \<exists>w. getBuild_r c (ncalls MGetBuild tr + i) = Inr w
        \<and> build_status w \<notin> set [''SUCCESS'', ''FAILURE'', ''INTERNAL_ERROR'', ''TIMEOUT'',
                                   ''CANCELLED'']"
    and "getBuild_r c (ncalls MGetBuild tr + k) = Inr b"
    and "build_status b \<in> set [''SUCCESS'', ''FAILURE'', ''INTERNAL_ERROR'', ''TIMEOUT'',
                                ''CANCELLED'']"
  shows "triggerCloudBuild c pid loc bucket blob repo img df cb tr =
     Some (build_completed c bid b cb
             (tr @ submit_events pid loc bucket blob img df cb
                 @ poll_events c pid bid cb (ncalls MGetBuild tr) k))"
proof -
  define m0 where "m0 = ''Initiating Cloud Build for gs://'' @ bucket @ ''/''
      @ blob @ '' in '' @ loc @ ''...''"
  define tr0 where "tr0 = tr @ log_events m0 cb Info"
  define req where "req = build_request_of bucket blob img df"
  have n0: "ncalls MCreateBuild tr0 = ncalls MCreateBuild tr"
    by (simp add: tr0_def ncalls_append)
  have cr: "\<And>d. callWithRetry (remote (CreateBuild pid req) (createBuild_r c)) d tr0
     = (Inr bid, tr0 @ [Call (CreateBuild pid req)])"
    using callWithRetry_first [of "createBuild_r c" "CreateBuild pid req" tr0] assms(1) n0
    by simp
  define tr1 where "tr1 = tr @ submit_events pid loc bucket blob img df cb"
  have tr1: "tr1 = (tr0 @ [Call (CreateBuild pid req)]) @ log_events ''Cloud Build job started...'' cb Info"
    by (simp add: tr1_def tr0_def submit_events_def req_def m0_def)
  have n1: "ncalls MGetBuild tr1 = ncalls MGetBuild tr"
    by (simp add: tr1_def submit_events_def ncalls_append ncalls_simps)
  have poll: "pollBuild c pid bid cb tr1 =
     Some (Inr b, tr1 @ poll_events c pid bid cb (ncalls MGetBuild tr) k)"
    using pollBuild_run [of k c tr1 b pid bid cb] assms(2-4) unfolding n1 by simp
  have pre: "io_bind (logAndProgress m0 cb Info)
      (\<lambda>_. io_bind (callWithRetry (remote (CreateBuild pid req) (createBuild_r c))
                       ''cloudBuild.createBuild'')
      (\<lambda>buildId. io_bind (logAndProgress ''Cloud Build job started...'' cb Info)
      (\<lambda>_. io_return buildId))) tr = (Inr bid, tr1)"
    unfolding tr1
    by (simp add: io_bind_def logAndProgress_def emit_def tr0_def [symmetric] cr io_return_def)
  have "triggerCloudBuild c pid loc bucket blob repo img df cb tr =
      (case pollBuild c pid bid cb tr1 of
         None \<Rightarrow> None
       | Some (Inl e, tr2) \<Rightarrow> Some (Inl e, tr2)
       | Some (Inr completedBuild, tr2) \<Rightarrow>
           Some (build_completed c bid completedBuild cb tr2))"
    unfolding triggerCloudBuild_def Let_def build_request_of_def [symmetric] req_def [symmetric]
      m0_def [symmetric]
    unfolding pre
    by simp
  also have "\<dots> = Some (build_completed c bid b cb
                         (tr1 @ poll_events c pid bid cb (ncalls MGetBuild tr) k))"
    by (simp add: poll)
  finally show ?thesis
    by (simp add: tr1_def)
qed

text \<open>
  Claim C4. Let \<open>createBuild\<close> succeed, let the first \<open>k\<close> answers of \<open>getBuild\<close> carry
  a status outside SUCCESS, FAILURE, INTERNAL_ERROR, TIMEOUT, CANCELLED, and let answer
  \<open>k + 1\<close> carry one of the five. Then the loop ends with that build: up to there the run
  made \<open>k + 1\<close> \<open>getBuild\<close> calls and \<open>k\<close> timers, each of 5000 ms; and when the status
  is SUCCESS and the build has an image, \<open>triggerCloudBuild\<close> returns that build,
  adding two log lines only. For the statuses working, working, success: three calls,
  two timers of 5000 ms, the success record.
\<close>

theorem triggerCloudBuild_polling:
  assumes "createBuild_r c (ncalls MCreateBuild tr) = Inr bid"
    and "\<forall>i<k. \<exists>w. getBuild_r c (ncalls MGetBuild tr + i) = Inr w
        \<and> build_status w \<notin> set [''SUCCESS'', ''FAILURE'', ''INTERNAL_ERROR'', ''TIMEOUT'',
                                   ''CANCELLED'']"
    and "getBuild_r c (ncalls MGetBuild tr + k) = Inr b"
    and "build_status b \<in> set [''SUCCESS'', ''FAILURE'', ''INTERNAL_ERROR'', ''TIMEOUT'',
                                ''CANCELLED'']"
  shows "triggerCloudBuild c pid loc bucket blob repo img df cb tr =
           Some (build_completed c bid b cb
                   (tr @ submit_events pid loc bucket blob img df cb
                       @ poll_events c pid bid cb (ncalls MGetBuild tr) k))
     \<and> calls (submit_events pid loc bucket blob img df cb
                @ poll_events c pid bid cb (ncalls MGetBuild tr) k)
         = CreateBuild pid (build_request_of bucket blob img df)
             # replicate (Suc k) (GetBuild pid bid)
     \<and> sleeps (submit_events pid loc bucket blob img df cb
                 @ poll_events c pid bid cb (ncalls MGetBuild tr) k)
         = replicate k 5000
     \<and> (build_status b = ''SUCCESS'' \<longrightarrow>
          (\<forall>image others tr2. build_images b = image # others \<longrightarrow>
             build_completed c bid b cb tr2 =
               (Inr b, tr2 @ log_events (''Cloud Build job '' @ bid
                                          @ '' completed successfully.'') cb Info
                           @ log_events (''Image built: '' @ image) cb Info)))"
proof (intro conjI impI allI)
  show "triggerCloudBuild c pid loc bucket blob repo img df cb tr =
           Some (build_completed c bid b cb
                   (tr @ submit_events pid loc bucket blob img df cb
                       @ poll_events c pid bid cb (ncalls MGetBuild tr) k))"
    using triggerCloudBuild_polled [OF assms] .
  show "calls (submit_events pid loc bucket blob img df cb
                @ poll_events c pid bid cb (ncalls MGetBuild tr) k)
         = CreateBuild pid (build_request_of bucket blob img df)
             # replicate (Suc k) (GetBuild pid bid)"
    by (simp add: calls_simps calls_poll_events submit_events_def)
  show "sleeps (submit_events pid loc bucket blob img df cb
                 @ poll_events c pid bid cb (ncalls MGetBuild tr) k)
         = replicate k 5000"
    by (simp add: sleeps_simps sleeps_poll_events submit_events_def)
next
  fix image others tr2
  assume "build_status b = ''SUCCESS''" "build_images b = image # others"
  then show "build_completed c bid b cb tr2 =
               (Inr b, tr2 @ log_events (''Cloud Build job '' @ bid
                                          @ '' completed successfully.'') cb Info
                           @ log_events (''Image built: '' @ image) cb Info)"
    by (simp add: build_completed_def io_bind_def logAndProgress_def emit_def io_return_def)
qed

theorem triggerCloudBuild_polling_witness:
  "triggerCloudBuild c4_backend ''p'' ''r'' ''p-source-bucket'' ''source.zip'' ''repo''
     ''r-docker.pkg.dev/p/repo/s:latest'' True False [] =
     Some (Inr success_build,
       [Console Info ''Initiating Cloud Build for gs://p-source-bucket/source.zip in r...'',
        Call (CreateBuild ''p''
                (build_request_of ''p-source-bucket'' ''source.zip''
                   ''r-docker.pkg.dev/p/repo/s:latest'' True)),
        Console Info ''Cloud Build job started...'',
        Call (GetBuild ''p'' ''b-1''),
        Console Info ''Build status: WORKING. Waiting...'',
        Sleep 5000,
        Call (GetBuild ''p'' ''b-1''),
        Console Info ''Build status: WORKING. Waiting...'',
        Sleep 5000,
        Call (GetBuild ''p'' ''b-1''),
        Console Info ''Cloud Build job b-1 completed successfully.'',
        Console Info ''Image built: r-docker.pkg.dev/p/repo/s:latest''])
   \<and> sleeps (submit_events ''p'' ''r'' ''p-source-bucket'' ''source.zip''
                ''r-docker.pkg.dev/p/repo/s:latest'' True False
              @ poll_events c4_backend ''p'' ''b-1'' False (ncalls MGetBuild []) 2)
       = [5000, 5000]
   \<and> calls (submit_events ''p'' ''r'' ''p-source-bucket'' ''source.zip''
                ''r-docker.pkg.dev/p/repo/s:latest'' True False
              @ poll_events c4_backend ''p'' ''b-1'' False (ncalls MGetBuild []) 2)
       = [CreateBuild ''p'' (build_request_of ''p-source-bucket'' ''source.zip''
                              ''r-docker.pkg.dev/p/repo/s:latest'' True),
          GetBuild ''p'' ''b-1'', GetBuild ''p'' ''b-1'', GetBuild ''p'' ''b-1'']"
proof -
  have h1: "createBuild_r c4_backend (ncalls MCreateBuild []) = Inr ''b-1''"
    by (simp add: c4_backend_def quiet_backend_def)
  have h2: "\<forall>i<2. \<exists>w. getBuild_r c4_backend (ncalls MGetBuild [] + i) = Inr w
        \<and> build_status w \<notin> set [''SUCCESS'', ''FAILURE'', ''INTERNAL_ERROR'', ''TIMEOUT'',
                                   ''CANCELLED'']"
    by (simp add: c4_backend_def quiet_backend_def working_build_def ncalls_simps)
  have h3: "getBuild_r c4_backend (ncalls MGetBuild [] + 2) = Inr success_build"
    by (simp add: c4_backend_def quiet_backend_def)
  have h4: "build_status success_build \<in> set [''SUCCESS'', ''FAILURE'', ''INTERNAL_ERROR'',
                                ''TIMEOUT'', ''CANCELLED'']"
    by (simp add: success_build_def)
  note t = triggerCloudBuild_polling [OF h1 h2 h3 h4, of "''p''" "''r''" "''p-source-bucket''"
      "''source.zip''" "''repo''" "''r-docker.pkg.dev/p/repo/s:latest''" True False]
  have s: "build_status success_build = ''SUCCESS''"
    and im: "build_images success_build = ''r-docker.pkg.dev/p/repo/s:latest'' # []"
    by (simp_all add: success_build_def)
  have st: "status_at c4_backend 0 = ''WORKING''" "status_at c4_backend (Suc 0) = ''WORKING''"
    by (simp_all add: status_at_def c4_backend_def quiet_backend_def working_build_def)
  have pe: "poll_events c4_backend ''p'' ''b-1'' False (ncalls MGetBuild []) 2 =
      [Call (GetBuild ''p'' ''b-1''), Console Info ''Build status: WORKING. Waiting...'',
       Sleep 5000,
       Call (GetBuild ''p'' ''b-1''), Console Info ''Build status: WORKING. Waiting...'',
       Sleep 5000,
       Call (GetBuild ''p'' ''b-1'')]"
    by (simp add: numeral_2_eq_2 ncalls_simps st log_events_def)
  have a: "triggerCloudBuild c4_backend ''p'' ''r'' ''p-source-bucket'' ''source.zip'' ''repo''
     ''r-docker.pkg.dev/p/repo/s:latest'' True False [] =
     Some (Inr success_build,
       ([] @ submit_events ''p'' ''r'' ''p-source-bucket'' ''source.zip''
                ''r-docker.pkg.dev/p/repo/s:latest'' True False
           @ poll_events c4_backend ''p'' ''b-1'' False (ncalls MGetBuild []) 2)
         @ log_events (''Cloud Build job '' @ ''b-1'' @ '' completed successfully.'') False Info
         @ log_events (''Image built: '' @ ''r-docker.pkg.dev/p/repo/s:latest'') False Info)"
    using t [THEN conjunct1]
      t [THEN conjunct2, THEN conjunct2, THEN conjunct2, rule_format, OF s im]
    by simp
  have b: "sleeps (submit_events ''p'' ''r'' ''p-source-bucket'' ''source.zip''
                ''r-docker.pkg.dev/p/repo/s:latest'' True False
              @ poll_events c4_backend ''p'' ''b-1'' False (ncalls MGetBuild []) 2)
       = [5000, 5000]"
    using t [THEN conjunct2, THEN conjunct2, THEN conjunct1] by (simp add: numeral_2_eq_2)
  have c: "calls (submit_events ''p'' ''r'' ''p-source-bucket'' ''source.zip''
                ''r-docker.pkg.dev/p/repo/s:latest'' True False
              @ poll_events c4_backend ''p'' ''b-1'' False (ncalls MGetBuild []) 2)
       = [CreateBuild ''p'' (build_request_of ''p-source-bucket'' ''source.zip''
                              ''r-docker.pkg.dev/p/repo/s:latest'' True),
          GetBuild ''p'' ''b-1'', GetBuild ''p'' ''b-1'', GetBuild ''p'' ''b-1'']"
    using t [THEN conjunct2, THEN conjunct1] by (simp add: numeral_2_eq_2 numeral_3_eq_3)
  show ?thesis
    unfolding a using b c by (simp add: pe submit_events_def log_events_def)
qed

subsection \<open>The error of a failed build\<close>

lemma js_startsWith_append: "js_startsWith (p @ q) p"
  by (induction p) simp_all

lemma js_includes_append: "js_includes (a @ s @ b) s"
proof (induction a)
  case Nil
  show ?case
    using js_startsWith_append [of s b] by (cases "s @ b") auto
next
  case (Cons x a)
  then show ?case by simp
qed

lemma ncalls_poll_events:
  "ncalls m (poll_events c pid bid cb n k) = (if m = MGetBuild then Suc k else 0)"
  by (induction k arbitrary: n) (auto simp: ncalls_simps ncalls_append)

lemma fetch_snippet_result:
  assumes "j \<le> 7"
    and "\<forall>i<j. retryable (getEntries_r c (ncalls MGetEntries tr + i))"
    and "j = 7 \<or> \<not> retryable (getEntries_r c (ncalls MGetEntries tr + j))"
  shows "fst (fetch_snippet c bid b cb tr) =
     Inr (case getEntries_r c (ncalls MGetEntries tr + j) of
            Inr (Some (e # es)) \<Rightarrow> lines_snippet bid (log_lines (e # es))
          | _ \<Rightarrow> default_snippet b)"
proof -
  define m1 where "m1 = ''Attempting to fetch last '' @ show_nat BUILD_LOGS_LINES_TO_FETCH
      @ '' log lines for build '' @ bid @ ''...''"
  define tr1 where "tr1 = tr @ log_events m1 cb Debug @ [Sleep DELAY_WAIT_FOR_BUILD_LOGS]"
  define q where "q = GetEntries (''resource.type=\"build\" AND resource.labels.build_id=\"''
                                         @ bid @ ''\"'')
                                      ''timestamp desc'' BUILD_LOGS_LINES_TO_FETCH"
  have mq: "method_of q = MGetEntries" by (simp add: q_def)
  have n1: "ncalls MGetEntries tr1 = ncalls MGetEntries tr"
    by (simp add: tr1_def ncalls_append ncalls_simps)
  have run: "\<And>d. callWithRetry (remote q (getEntries_r c)) d tr1 =
     (getEntries_r c (ncalls MGetEntries tr + j), tr1 @ retry_events q d 0 j)"
    using callWithRetry_run [of j "getEntries_r c" q tr1] assms unfolding mq n1 by simp
  show ?thesis
    unfolding fetch_snippet_def m1_def [symmetric] q_def [symmetric]
    by (simp add: io_catch_def io_bind_def logAndProgress_def emit_def run [unfolded tr1_def]
          io_return_def split: sum.splits option.splits list.splits)
qed

text \<open>
  Claim C2. Let \<open>createBuild\<close> succeed and the polling end, after \<open>k\<close> rounds, with a
  build whose status is FAILURE, INTERNAL_ERROR, TIMEOUT or CANCELLED; let the log fetch
  (\<open>getEntries\<close> under \<open>callWithRetry\<close>, \<open>j\<close> retries) come to the answer
  \<open>getEntries_r c (n + j)\<close>. Then \<open>triggerCloudBuild\<close> throws an error whose message
  contains the build identifier, and contains the fetched lines (oldest first, joined by
  newlines) when that answer holds at least one entry, and the log URL when the fetch
  failed or gave no entry.
\<close>

theorem triggerCloudBuild_failure_error:
  assumes "createBuild_r c (ncalls MCreateBuild tr) = Inr bid"
    and "\<forall>i<k. \<exists>w. getBuild_r c (ncalls MGetBuild tr + i) = Inr w
        \<and> build_status w \<notin> set [''SUCCESS'', ''FAILURE'', ''INTERNAL_ERROR'', ''TIMEOUT'',
                                   ''CANCELLED'']"
    and "getBuild_r c (ncalls MGetBuild tr + k) = Inr b"
    and "build_status b \<in> set [''FAILURE'', ''INTERNAL_ERROR'', ''TIMEOUT'', ''CANCELLED'']"
    and "j \<le> 7"
    and "\<forall>i<j. retryable (getEntries_r c (ncalls MGetEntries tr + i))"
    and "j = 7 \<or> \<not> retryable (getEntries_r c (ncalls MGetEntries tr + j))"
  shows "(\<exists>tr'. triggerCloudBuild c pid loc bucket blob repo img df cb tr =
            Some (Inl (new_Error
                    (failure_message bid b (getEntries_r c (ncalls MGetEntries tr + j)))), tr'))
     \<and> js_includes (failure_message bid b (getEntries_r c (ncalls MGetEntries tr + j))) bid
     \<and> (case getEntries_r c (ncalls MGetEntries tr + j) of
           Inr (Some (e # es)) \<Rightarrow>
             js_includes (failure_message bid b (getEntries_r c (ncalls MGetEntries tr + j)))
               (js_join newline (log_lines (e # es)))
         | _ \<Rightarrow>
             js_includes (failure_message bid b (getEntries_r c (ncalls MGetEntries tr + j)))
               (js_str (build_logUrl b)))"
proof (intro conjI)
  define tr2 where "tr2 = tr @ submit_events pid loc bucket blob img df cb
                       @ poll_events c pid bid cb (ncalls MGetBuild tr) k"
  define m1 where "m1 = ''Cloud Build job '' @ bid @ '' failed with status: '' @ build_status b"
  define m2 where "m2 = ''Build logs: '' @ js_str (build_logUrl b)"
  define tr3 where "tr3 = tr2 @ log_events m1 cb Err @ log_events m2 cb Info"
  define fetched where "fetched = getEntries_r c (ncalls MGetEntries tr + j)"
  have tm: "build_status b \<in> set [''SUCCESS'', ''FAILURE'', ''INTERNAL_ERROR'', ''TIMEOUT'',
                                ''CANCELLED'']"
    using assms(4) by auto
  have nos: "build_status b \<noteq> ''SUCCESS''"
    using assms(4) by auto
  have run: "triggerCloudBuild c pid loc bucket blob repo img df cb tr =
           Some (build_completed c bid b cb tr2)"
    unfolding tr2_def using triggerCloudBuild_polled [OF assms(1-3) tm] .
  have n3: "ncalls MGetEntries tr3 = ncalls MGetEntries tr"
    by (simp add: tr3_def tr2_def ncalls_append ncalls_poll_events submit_events_def
          ncalls_simps)
  have fs: "fst (fetch_snippet c bid b cb tr3) =
     Inr (case fetched of
            Inr (Some (e # es)) \<Rightarrow> lines_snippet bid (log_lines (e # es))
          | _ \<Rightarrow> default_snippet b)"
    unfolding fetched_def
    using fetch_snippet_result [of j c tr3 bid b cb] assms(5-7) unfolding n3 by simp
  obtain tr4 where f4: "fetch_snippet c bid b cb tr3 =
     (Inr (case fetched of
            Inr (Some (e # es)) \<Rightarrow> lines_snippet bid (log_lines (e # es))
          | _ \<Rightarrow> default_snippet b), tr4)"
    using fs by (cases "fetch_snippet c bid b cb tr3") simp
  have "build_completed c bid b cb tr2 =
     (Inl (new_Error (failure_message bid b fetched)), tr4)"
    unfolding build_completed_def m1_def [symmetric] m2_def [symmetric]
    using nos
    by (simp add: io_bind_def logAndProgress_def emit_def f4 [unfolded tr3_def] io_throw_def
          failure_message_def)
  then show "\<exists>tr'. triggerCloudBuild c pid loc bucket blob repo img df cb tr =
            Some (Inl (new_Error
                    (failure_message bid b (getEntries_r c (ncalls MGetEntries tr + j)))), tr')"
    unfolding run fetched_def by simp
  show "js_includes (failure_message bid b (getEntries_r c (ncalls MGetEntries tr + j))) bid"
    unfolding failure_message_def
    using js_includes_append [of "''Build ''" bid] by simp
  show "case getEntries_r c (ncalls MGetEntries tr + j) of
           Inr (Some (e # es)) \<Rightarrow>
             js_includes (failure_message bid b (getEntries_r c (ncalls MGetEntries tr + j)))
               (js_join newline (log_lines (e # es)))
         | _ \<Rightarrow>
             js_includes (failure_message bid b (getEntries_r c (ncalls MGetEntries tr + j)))
               (js_str (build_logUrl b))"
  proof -
    have url: "\<And>x. js_includes (x @ default_snippet b) (js_str (build_logUrl b))"
      unfolding default_snippet_def
      using js_includes_append [of _ "js_str (build_logUrl b)" "[]"] 
      by (metis append.assoc append_Nil2)
    have lines: "\<And>x ls. js_includes (x @ lines_snippet bid ls) (js_join newline ls)"
      unfolding lines_snippet_def
      using js_includes_append [of _ "js_join newline ls" "[]" for ls]
      by (metis append.assoc append_Nil2)
    show ?thesis
      unfolding failure_message_def
      using url [of "''Build '' @ bid @ '' failed.''"]
        lines [of "''Build '' @ bid @ '' failed.''"]
      by (simp split: sum.splits option.splits list.splits)
  qed
qed

theorem triggerCloudBuild_failure_error_witness:
  "(\<exists>tr'. triggerCloudBuild c2_backend_logs ''p'' ''r'' ''p-source-bucket'' ''source.zip''
            ''repo'' ''img'' True False [] =
          Some (Inl (new_Error (''Build b-1 failed.'' @ newline @ newline
                       @ ''Last 2 log lines from build b-1:'' @ newline
                       @ ''step 1 ok'' @ newline @ ''step 2 failed'')), tr'))
   \<and> js_includes (''Build b-1 failed.'' @ newline @ newline
                    @ ''Last 2 log lines from build b-1:'' @ newline
                    @ ''step 1 ok'' @ newline @ ''step 2 failed'') ''b-1''
   \<and> js_includes (''Build b-1 failed.'' @ newline @ newline
                    @ ''Last 2 log lines from build b-1:'' @ newline
                    @ ''step 1 ok'' @ newline @ ''step 2 failed'')
        (''step 1 ok'' @ newline @ ''step 2 failed'')
   \<and> (\<exists>tr'. triggerCloudBuild c2_backend_nologs ''p'' ''r'' ''p-source-bucket'' ''source.zip''
            ''repo'' ''img'' True False [] =
          Some (Inl (new_Error (''Build b-1 failed.'' @ newline @ newline
                       @ ''Refer to Log URL for full details: https://logs/b-1'')), tr'))
   \<and> js_includes (''Build b-1 failed.'' @ newline @ newline
                    @ ''Refer to Log URL for full details: https://logs/b-1'')
        ''https://logs/b-1''"
proof -
  have f: "build_status failed_build \<in> set [''FAILURE'', ''INTERNAL_ERROR'', ''TIMEOUT'',
                                          ''CANCELLED'']"
    by (simp add: failed_build_def)
  have two: "show_nat 2 = ''2''"
    by (subst show_nat.simps) simp
  have m1: "failure_message ''b-1'' failed_build
              (Inr (Some [Some ''step 2 failed'', Some ''step 1 ok''])) =
            ''Build b-1 failed.'' @ newline @ newline
              @ ''Last 2 log lines from build b-1:'' @ newline
              @ ''step 1 ok'' @ newline @ ''step 2 failed''"
    by (simp add: failure_message_def lines_snippet_def log_lines_def two)
  have m2: "failure_message ''b-1'' failed_build (Inl not_found) =
            ''Build b-1 failed.'' @ newline @ newline
              @ ''Refer to Log URL for full details: https://logs/b-1''"
    by (simp add: failure_message_def default_snippet_def failed_build_def js_str_def)
  have a: "(\<exists>tr'. triggerCloudBuild c2_backend_logs ''p'' ''r'' ''p-source-bucket''
            ''source.zip'' ''repo'' ''img'' True False [] =
          Some (Inl (new_Error (failure_message ''b-1'' failed_build
                       (Inr (Some [Some ''step 2 failed'', Some ''step 1 ok''])))), tr'))
     \<and> js_includes (failure_message ''b-1'' failed_build
                       (Inr (Some [Some ''step 2 failed'', Some ''step 1 ok'']))) ''b-1''
     \<and> js_includes (failure_message ''b-1'' failed_build
                       (Inr (Some [Some ''step 2 failed'', Some ''step 1 ok''])))
          (js_join newline (log_lines [Some ''step 2 failed'', Some ''step 1 ok'']))"
    using triggerCloudBuild_failure_error [of c2_backend_logs "[]" "''b-1''" 0 failed_build 0
        "''p''" "''r''" "''p-source-bucket''" "''source.zip''" "''repo''" "''img''" True False] f
    by (simp add: c2_backend_logs_def quiet_backend_def ncalls_simps retryable_def)
  have b: "(\<exists>tr'. triggerCloudBuild c2_backend_nologs ''p'' ''r'' ''p-source-bucket''
            ''source.zip'' ''repo'' ''img'' True False [] =
          Some (Inl (new_Error (failure_message ''b-1'' failed_build (Inl not_found))), tr'))
     \<and> js_includes (failure_message ''b-1'' failed_build (Inl not_found))
          (js_str (build_logUrl failed_build))"
    using triggerCloudBuild_failure_error [of c2_backend_nologs "[]" "''b-1''" 0 failed_build 0
        "''p''" "''r''" "''p-source-bucket''" "''source.zip''" "''repo''" "''img''" True False] f
    by (simp add: c2_backend_nologs_def quiet_backend_def ncalls_simps retryable_def
          not_found_def)
  have l: "js_join newline (log_lines [Some ''step 2 failed'', Some ''step 1 ok''])
           = ''step 1 ok'' @ newline @ ''step 2 failed''"
    by (simp add: log_lines_def)
  have u: "js_str (build_logUrl failed_build) = ''https://logs/b-1''"
    by (simp add: failed_build_def js_str_def)
  show ?thesis
    using a b unfolding m1 m2 l u by blast
qed

subsection \<open>The dry run of deployToCloudRun\<close>

lemma callWithRetry_loop_trace:
  "\<exists>evs n. snd (callWithRetry_loop (remote r answers) d j tr) = tr @ evs
            \<and> calls evs = replicate (Suc n) r"
proof (induction "maxRetries - j" arbitrary: j tr)
  case 0
  then have "\<not> j < maxRetries" by simp
  then have "snd (callWithRetry_loop (remote r answers) d j tr) = tr @ [Call r]"
    by (subst callWithRetry_loop.simps) (simp add: remote_def split: sum.splits)
  then show ?case
    by (intro exI [of _ "[Call r]"] exI [of _ 0]) (simp add: calls_simps)
next
  case (Suc m)
  show ?case
  proof (cases "\<exists>e. answers (ncalls (method_of r) tr) = Inl e \<and> code e = Some 7")
    case False
    then have "snd (callWithRetry_loop (remote r answers) d j tr) = tr @ [Call r]"
      by (subst callWithRetry_loop.simps) (auto simp: remote_def split: sum.splits)
    then show ?thesis
      by (intro exI [of _ "[Call r]"] exI [of _ 0]) (simp add: calls_simps)
  next
    case True
    then obtain e where e: "answers (ncalls (method_of r) tr) = Inl e" "code e = Some 7"
      by blast
    from Suc.hyps(2) have lt: "j < maxRetries" by simp
    define w where "w = [Console Warn (retry_warning d (backoff_ms (Suc j)) (Suc j)),
                         Sleep (backoff_ms (Suc j))]"
    have step: "callWithRetry_loop (remote r answers) d j tr =
        callWithRetry_loop (remote r answers) d (Suc j) ((tr @ [Call r]) @ w)"
      using e lt
      by (subst callWithRetry_loop.simps)
         (simp add: remote_def initialBackoff_def backoff_ms_def Let_def w_def)
    from Suc.hyps(2) have "m = maxRetries - Suc j" by simp
    from Suc.hyps(1) [OF this, of "(tr @ [Call r]) @ w"]
    obtain evs n where evs:
      "snd (callWithRetry_loop (remote r answers) d (Suc j) ((tr @ [Call r]) @ w))
         = ((tr @ [Call r]) @ w) @ evs"
      "calls evs = replicate (Suc n) r"
      by blast
    show ?thesis
      unfolding step evs(1)
      by (intro exI [of _ "[Call r] @ w @ evs"] exI [of _ "Suc n"])
         (simp add: calls_simps evs(2) w_def)
  qed
qed

lemma callWithRetry_trace:
  "\<exists>evs n. snd (callWithRetry (remote r answers) d tr) = tr @ evs
            \<and> calls evs = replicate (Suc n) r"
  unfolding callWithRetry_def by (rule callWithRetry_loop_trace)

lemma real_mutations_simps:
  "real_mutations [] = []"
  "real_mutations (tr @ tr') = real_mutations tr @ real_mutations tr'"
  "real_mutations (log_events msg cb lvl) = []"
  "real_mutations (Console l s # tr) = real_mutations tr"
  "real_mutations (Call (ServiceExists p l' i) # tr) = real_mutations tr"
  "real_mutations (Call DeployPromise # tr) = real_mutations tr"
  by (simp_all add: real_mutations_def calls_simps is_real_mutation_def)

lemma dry_run_trace:
  "\<exists>evs. snd (dry_run c parent spath sid ex svc cb tr) = tr @ evs \<and> real_mutations evs = []"
proof -
  define q where "q = (if ex then UpdateService (svc\<lparr>service_name := Some spath\<rparr>) True
                       else CreateService parent svc sid True)"
  define ans where "ans = (if ex then updateService_r c else createService_r c)"
  define m0 where "m0 = ''Performing dry run for service '' @ sid @ ''...''"
  define m1 where "m1 = ''Dry run successful for '' @ sid @ '' with current configuration.''"
  have nq: "\<not> is_real_mutation q"
    by (simp add: q_def is_real_mutation_def)
  have call: "\<And>d d'. (if ex then
                  callWithRetry
                    (remote (UpdateService (svc\<lparr>service_name := Some spath\<rparr>) True)
                       (updateService_r c)) d
                else
                  callWithRetry
                    (remote (CreateService parent svc sid True) (createService_r c)) d')
            = callWithRetry (remote q ans) (if ex then d else d')"
    by (simp add: q_def ans_def)
  obtain evs n where evs:
    "snd (callWithRetry (remote q ans)
            (if ex then ''updateService (dry run) '' @ sid else ''createService (dry run) '' @ sid)
            (tr @ log_events m0 cb Debug))
       = (tr @ log_events m0 cb Debug) @ evs"
    "calls evs = replicate (Suc n) q"
    using callWithRetry_trace by blast
  have rm: "real_mutations evs = []"
    using nq by (simp add: real_mutations_def evs(2))
  show ?thesis
  proof (cases "callWithRetry (remote q ans)
            (if ex then ''updateService (dry run) '' @ sid else ''createService (dry run) '' @ sid)
            (tr @ log_events m0 cb Debug)")
    case (Pair res tr2)
    with evs(1) have tr2: "tr2 = (tr @ log_events m0 cb Debug) @ evs" by simp
    show ?thesis
      unfolding dry_run_def m0_def [symmetric] m1_def [symmetric] call
      by (cases res)
         (simp_all add: io_bind_def logAndProgress_def emit_def Pair tr2 real_mutations_simps rm)
  qed
qed

lemma complete_deployment_trace:
  "\<exists>evs n. snd (io_catch (complete_deployment c parent spath sid ex svc cb)
                   (deployment_failed sid cb) tr) = tr @ evs
     \<and> real_mutations evs =
         replicate (Suc n)
           (if ex then UpdateService (svc\<lparr>service_name := Some spath\<rparr>) False
            else CreateService parent svc sid False)"
proof -
  define q where "q = (if ex then UpdateService (svc\<lparr>service_name := Some spath\<rparr>) False
                       else CreateService parent svc sid False)"
  define ans where "ans = (if ex then updateService_r c else createService_r c)"
  define m0 where "m0 = (if ex then ''Updating existing service '' @ sid @ ''...''
                         else ''Creating new service '' @ sid @ ''...'')"
  define d where "d = (if ex then ''updateService '' @ sid else ''createService '' @ sid)"
  have yq: "is_real_mutation q"
    by (simp add: q_def is_real_mutation_def)
  have rm_eq: "real_mutation c parent spath sid ex svc cb =
      io_bind (logAndProgress m0 cb Info) (\<lambda>_. callWithRetry (remote q ans) d)"
    by (simp add: real_mutation_def q_def ans_def m0_def d_def)
  obtain evs n where evs:
    "snd (callWithRetry (remote q ans) d (tr @ log_events m0 cb Info))
       = (tr @ log_events m0 cb Info) @ evs"
    "calls evs = replicate (Suc n) q"
    using callWithRetry_trace by blast
  have rm: "real_mutations evs = replicate (Suc n) q"
    using yq by (simp add: real_mutations_def evs(2))
  obtain res tr2 where r: "callWithRetry (remote q ans) d (tr @ log_events m0 cb Info)
      = (res, tr2)"
    by (cases "callWithRetry (remote q ans) d (tr @ log_events m0 cb Info)") simp
  with evs(1) have tr2: "tr2 = (tr @ log_events m0 cb Info) @ evs" by simp
  have mut: "real_mutation c parent spath sid ex svc cb tr = (res, tr2)"
    by (simp add: rm_eq io_bind_def logAndProgress_def emit_def r)
  define m1 where "m1 = ''Deploying '' @ sid @ '' to Cloud Run...''"
  define tr3 where "tr3 = tr2 @ log_events m1 cb Info"
  show ?thesis
  proof (cases res)
    case (Inl e)
    have "io_catch (complete_deployment c parent spath sid ex svc cb)
            (deployment_failed sid cb) tr = deployment_failed sid cb e tr2"
      by (simp add: io_catch_def complete_deployment_def io_bind_def mut Inl)
    then show ?thesis
      unfolding q_def [symmetric]
      by (intro exI [of _ "log_events m0 cb Info @ evs
               @ [Console Err (''Error deploying/updating service '' @ sid @ '':'')]
               @ log_events (''Error deploying/updating service '' @ sid @ '': ''
                               @ js_str (message e)) cb Err"] exI [of _ n])
         (simp add: deployment_failed_def io_bind_def emit_def logAndProgress_def io_throw_def
            tr2 real_mutations_simps rm)
  next
    case (Inr op)
    obtain res2 where p: "remote DeployPromise (deployPromise_r c) tr3
        = (res2, tr3 @ [Call DeployPromise])"
      by (simp add: remote_def)
    have cd: "complete_deployment c parent spath sid ex svc cb tr =
        io_bind (remote DeployPromise (deployPromise_r c))
          (\<lambda>response.
             io_bind (logAndProgress (''Service deployed/updated successfully: ''
                        @ js_str (uri response)) cb Info)
               (\<lambda>_. io_return response)) tr3"
      unfolding complete_deployment_def m1_def [symmetric]
      by (simp add: io_bind_def mut Inr logAndProgress_def emit_def tr3_def)
    show ?thesis
    proof (cases res2)
      case (Inl e)
      have "io_catch (complete_deployment c parent spath sid ex svc cb)
            (deployment_failed sid cb) tr = deployment_failed sid cb e (tr3 @ [Call DeployPromise])"
        by (simp add: io_catch_def cd io_bind_def p Inl)
      then show ?thesis
        unfolding q_def [symmetric]
        by (intro exI [of _ "log_events m0 cb Info @ evs @ log_events m1 cb Info
               @ [Call DeployPromise]
               @ [Console Err (''Error deploying/updating service '' @ sid @ '':'')]
               @ log_events (''Error deploying/updating service '' @ sid @ '': ''
                               @ js_str (message e)) cb Err"] exI [of _ n])
           (simp add: deployment_failed_def io_bind_def emit_def logAndProgress_def io_throw_def
              tr3_def tr2 real_mutations_simps rm)
    next
      case (Inr response)
      have "io_catch (complete_deployment c parent spath sid ex svc cb)
            (deployment_failed sid cb) tr =
            (Inr response, (tr3 @ [Call DeployPromise])
               @ log_events (''Service deployed/updated successfully: ''
                               @ js_str (uri response)) cb Info)"
        by (simp add: io_catch_def cd io_bind_def p Inr logAndProgress_def emit_def
              io_return_def)
      then show ?thesis
        unfolding q_def [symmetric]
        by (intro exI [of _ "log_events m0 cb Info @ evs @ log_events m1 cb Info
               @ [Call DeployPromise]
               @ log_events (''Service deployed/updated successfully: ''
                               @ js_str (uri response)) cb Info"] exI [of _ n])
           (simp add: tr3_def tr2 real_mutations_simps rm)
    qed
  qed
qed

lemma deployToCloudRun_after_dry_run_error:
  assumes "serviceExists_r c (ncalls MServiceExists tr) = Inr ex"
    and "dry_run c (runClient_locationPath c pid loc) (runClient_servicePath c pid loc sid) sid
           ex (initial_service c sid img skip) cb (tr @ [Call (ServiceExists pid loc sid)])
         = (Inl e, tr2)"
  shows "deployToCloudRun c pid loc sid img cb skip tr =
     io_catch
       (io_bind (dry_run_failed sid (initial_service c sid img skip) cb skip e)
          (\<lambda>service. complete_deployment c (runClient_locationPath c pid loc)
                       (runClient_servicePath c pid loc sid) sid ex service cb))
       (deployment_failed sid cb) tr2"
  unfolding deployToCloudRun_def Let_def initial_service_def [symmetric]
  using assms
  by (simp add: io_catch_def io_bind_def checkCloudRunServiceExists_def remote_def)

lemma dry_run_extends:
  assumes "dry_run c parent spath sid ex svc cb tr1 = (res, tr2)"
  shows "\<exists>evs. tr2 = tr1 @ evs \<and> real_mutations evs = []"
  using dry_run_trace [of c parent spath sid ex svc cb tr1] assms by simp

lemma dry_run_failed_rejects:
  assumes "\<not> (skip \<and> truthy (message e)
            \<and> (js_includes (toLowerCase (js_str (message e))) ''invokeriamdisabled''
               \<or> js_includes (toLowerCase (js_str (message e))) ''iam policy violation''
               \<or> code e = Some 3))"
  shows "dry_run_failed sid svc cb skip e tr =
     (Inl (new_Error (''Dry run validation failed for service '' @ sid @ '': ''
                        @ js_str (message e))),
      tr @ log_events (''Dry run for '' @ sid @ '' failed: '' @ js_str (message e)) cb Warn
         @ log_events (''Dry run validation failed for service '' @ sid @ '': ''
                          @ js_str (message e)) cb Err)"
  unfolding dry_run_failed_def if_not_P [OF assms]
  by (simp add: io_bind_def logAndProgress_def emit_def io_throw_def)

lemma dry_run_failed_falls_back:
  assumes "skip \<and> truthy (message e)
            \<and> (js_includes (toLowerCase (js_str (message e))) ''invokeriamdisabled''
               \<or> js_includes (toLowerCase (js_str (message e))) ''iam policy violation''
               \<or> code e = Some 3)"
  shows "dry_run_failed sid svc cb skip e tr =
     (Inr (svc\<lparr>invokerIamDisabled := False\<rparr>),
      tr @ log_events (''Dry run for '' @ sid @ '' failed: '' @ js_str (message e)) cb Warn
         @ log_events (''Dry run suggests 'invokerIamDisabled' is not allowed or invalid. ''
                         @ ''Attempting deployment without it.'') cb Warn)"
  unfolding dry_run_failed_def if_P [OF assms]
  by (simp add: io_bind_def logAndProgress_def emit_def io_return_def)

lemma deployToCloudRun_rejected:
  assumes "serviceExists_r c (ncalls MServiceExists tr) = Inr ex"
    and "dry_run c (runClient_locationPath c pid loc) (runClient_servicePath c pid loc sid) sid
           ex (initial_service c sid img skip) cb (tr @ [Call (ServiceExists pid loc sid)])
         = (Inl e, tr2)"
    and "\<not> (skip \<and> truthy (message e)
            \<and> (js_includes (toLowerCase (js_str (message e))) ''invokeriamdisabled''
               \<or> js_includes (toLowerCase (js_str (message e))) ''iam policy violation''
               \<or> code e = Some 3))"
  shows "deployToCloudRun c pid loc sid img cb skip tr =
     (Inl (new_Error (''Dry run validation failed for service '' @ sid @ '': ''
                        @ js_str (message e))),
      tr2 @ log_events (''Dry run for '' @ sid @ '' failed: '' @ js_str (message e)) cb Warn
          @ log_events (''Dry run validation failed for service '' @ sid @ '': ''
                          @ js_str (message e)) cb Err
          @ [Console Err (''Error deploying/updating service '' @ sid @ '':'')]
          @ log_events (''Error deploying/updating service '' @ sid @ '': ''
                          @ ''Dry run validation failed for service '' @ sid @ '': ''
                          @ js_str (message e)) cb Err)
     \<and> real_mutations (drop (length tr) (snd (deployToCloudRun c pid loc sid img cb skip tr)))
         = []"
proof -
  define m where "m = js_str (message e)"
  have run: "deployToCloudRun c pid loc sid img cb skip tr =
     (Inl (new_Error (''Dry run validation failed for service '' @ sid @ '': '' @ m)),
      tr2 @ log_events (''Dry run for '' @ sid @ '' failed: '' @ m) cb Warn
          @ log_events (''Dry run validation failed for service '' @ sid @ '': '' @ m) cb Err
          @ [Console Err (''Error deploying/updating service '' @ sid @ '':'')]
          @ log_events (''Error deploying/updating service '' @ sid @ '': ''
                          @ ''Dry run validation failed for service '' @ sid @ '': '' @ m)
              cb Err)"
    unfolding deployToCloudRun_after_dry_run_error [OF assms(1,2)] m_def
    by (simp add: io_catch_def io_bind_def dry_run_failed_rejects [OF assms(3)]
          deployment_failed_def logAndProgress_def emit_def io_throw_def new_Error_def
          js_str_def)
  obtain evs where evs: "tr2 = (tr @ [Call (ServiceExists pid loc sid)]) @ evs"
    "real_mutations evs = []"
    using dry_run_extends [OF assms(2)] by blast
  show ?thesis
    unfolding run
    by (simp add: evs real_mutations_simps m_def)
qed

lemma deployToCloudRun_fallback:
  assumes "serviceExists_r c (ncalls MServiceExists tr) = Inr ex"
    and "dry_run c (runClient_locationPath c pid loc) (runClient_servicePath c pid loc sid) sid
           ex (initial_service c sid img skip) cb (tr @ [Call (ServiceExists pid loc sid)])
         = (Inl e, tr2)"
    and "skip \<and> truthy (message e)
            \<and> (js_includes (toLowerCase (js_str (message e))) ''invokeriamdisabled''
               \<or> js_includes (toLowerCase (js_str (message e))) ''iam policy violation''
               \<or> code e = Some 3)"
  shows "\<exists>n. real_mutations
               (drop (length tr) (snd (deployToCloudRun c pid loc sid img cb skip tr)))
         = replicate (Suc n)
             (real_call c pid loc sid ex
                ((initial_service c sid img skip)\<lparr>invokerIamDisabled := False\<rparr>))"
proof -
  define svc where "svc = (initial_service c sid img skip)\<lparr>invokerIamDisabled := False\<rparr>"
  define tr3 where "tr3 = tr2
      @ log_events (''Dry run for '' @ sid @ '' failed: '' @ js_str (message e)) cb Warn
      @ log_events (''Dry run suggests 'invokerIamDisabled' is not allowed or invalid. ''
                      @ ''Attempting deployment without it.'') cb Warn"
  have h: "dry_run_failed sid (initial_service c sid img skip) cb skip e tr2 = (Inr svc, tr3)"
    unfolding svc_def tr3_def
    using dry_run_failed_falls_back [OF assms(3)] by simp
  have run: "deployToCloudRun c pid loc sid img cb skip tr =
     io_catch (complete_deployment c (runClient_locationPath c pid loc)
                 (runClient_servicePath c pid loc sid) sid ex svc cb)
       (deployment_failed sid cb) tr3"
    unfolding deployToCloudRun_after_dry_run_error [OF assms(1,2)]
    by (simp add: io_catch_def io_bind_def h)
  obtain evs where evs: "tr2 = (tr @ [Call (ServiceExists pid loc sid)]) @ evs"
    "real_mutations evs = []"
    using dry_run_extends [OF assms(2)] by blast
  obtain evs2 n where evs2:
    "snd (io_catch (complete_deployment c (runClient_locationPath c pid loc)
                 (runClient_servicePath c pid loc sid) sid ex svc cb)
       (deployment_failed sid cb) tr3) = tr3 @ evs2"
    "real_mutations evs2 = replicate (Suc n) (real_call c pid loc sid ex svc)"
    using complete_deployment_trace [of c "runClient_locationPath c pid loc"
        "runClient_servicePath c pid loc sid" sid ex svc cb tr3]
    unfolding real_call_def by blast
  show ?thesis
    unfolding run evs2(1) svc_def [symmetric]
    by (intro exI [of _ n]) (simp add: tr3_def evs real_mutations_simps evs2(2))
qed

text \<open>
  Claim C10. Let the exists-check succeed and the dry run fail with an error whose code
  is 3 and whose message is absent or empty. Then, with \<open>skipIamCheck\<close> set,
  \<open>deployToCloudRun\<close> throws the error "Dry run validation failed for service ...",
  and no call without \<open>validateOnly\<close> is made.
\<close>

theorem deployToCloudRun_code3_without_message:
  assumes "serviceExists_r c (ncalls MServiceExists tr) = Inr ex"
    and "dry_run c (runClient_locationPath c pid loc) (runClient_servicePath c pid loc sid) sid
           ex (initial_service c sid img True) cb (tr @ [Call (ServiceExists pid loc sid)])
         = (Inl e, tr2)"
    and "code e = Some 3"
    and "message e = None \<or> message e = Some []"
  shows "fst (deployToCloudRun c pid loc sid img cb True tr) =
           Inl (new_Error (''Dry run validation failed for service '' @ sid @ '': ''
                             @ js_str (message e)))
     \<and> real_mutations (drop (length tr) (snd (deployToCloudRun c pid loc sid img cb True tr)))
         = []"
proof -
  have "\<not> truthy (message e)"
    using assms(4) by (auto simp: truthy_def)
  then have "\<not> (True \<and> truthy (message e)
            \<and> (js_includes (toLowerCase (js_str (message e))) ''invokeriamdisabled''
               \<or> js_includes (toLowerCase (js_str (message e))) ''iam policy violation''
               \<or> code e = Some 3))"
    by simp
  note r = deployToCloudRun_rejected [OF assms(1,2) this]
  have "fst (deployToCloudRun c pid loc sid img cb True tr) =
           Inl (new_Error (''Dry run validation failed for service '' @ sid @ '': ''
                             @ js_str (message e)))"
    unfolding r [THEN conjunct1] by simp
  with r [THEN conjunct2] show ?thesis
    by (rule conjI [rotated])
qed

lemmas deploy_eval =
  dry_run_def io_bind_def logAndProgress_def emit_def log_events_def callWithRetry_first
  retryable_def ncalls_simps ncalls_append quiet_backend_def

theorem deployToCloudRun_code3_without_message_witness:
  "fst (deployToCloudRun c10_backend ''p'' ''r'' ''s'' ''img'' False True []) =
     Inl (new_Error ''Dry run validation failed for service s: undefined'')
   \<and> real_mutations (drop (length ([] :: trace))
         (snd (deployToCloudRun c10_backend ''p'' ''r'' ''s'' ''img'' False True []))) = []"
proof -
  have h1: "serviceExists_r c10_backend (ncalls MServiceExists []) = Inr True"
    by (simp add: c10_backend_def quiet_backend_def)
  have h2: "dry_run c10_backend (runClient_locationPath c10_backend ''p'' ''r'')
           (runClient_servicePath c10_backend ''p'' ''r'' ''s'') ''s''
           True (initial_service c10_backend ''s'' ''img'' True) False
           ([] @ [Call (ServiceExists ''p'' ''r'' ''s'')])
         = (Inl invalid_argument_absent,
            [Call (ServiceExists ''p'' ''r'' ''s''),
             Console Info ''Performing dry run for service s...'',
             Call (UpdateService
                     ((initial_service c10_backend ''s'' ''img'' True)
                        \<lparr>service_name := Some ''projects/p/locations/r/services/s''\<rparr>)
                     True)])"
    by (simp add: c10_backend_def invalid_argument_absent_def deploy_eval)
  have h3: "code invalid_argument_absent = Some 3"
    and h4: "message invalid_argument_absent = None \<or> message invalid_argument_absent = Some []"
    by (simp_all add: invalid_argument_absent_def)
  show ?thesis
    using deployToCloudRun_code3_without_message [OF h1 h2 h3 h4]
    by (simp add: invalid_argument_absent_def js_str_def)
qed

text \<open>
  Claim C1, as the code has it. Let the exists-check succeed and the dry run fail with
  the error \<open>e\<close>, with \<open>skipIamCheck\<close> set. When the message of \<open>e\<close> is not empty and
  either holds, in any letter case, \<open>invokeriamdisabled\<close> or \<open>iam policy violation\<close>, or
  the code of \<open>e\<close> is 3, the real call is made (once, or again after a code 7), each
  time with the service definition without \<open>invokerIamDisabled\<close>. In every other case
  (a code 3 with no message among them) \<open>deployToCloudRun\<close> throws the error naming the
  service, and no call without \<open>validateOnly\<close> is made.
\<close>

theorem deployToCloudRun_dry_run_fallback:
  assumes "serviceExists_r c (ncalls MServiceExists tr) = Inr ex"
    and "dry_run c (runClient_locationPath c pid loc) (runClient_servicePath c pid loc sid) sid
           ex (initial_service c sid img True) cb (tr @ [Call (ServiceExists pid loc sid)])
         = (Inl e, tr2)"
  shows "(truthy (message e)
            \<and> (js_includes (toLowerCase (js_str (message e))) ''invokeriamdisabled''
               \<or> js_includes (toLowerCase (js_str (message e))) ''iam policy violation''
               \<or> code e = Some 3)
          \<longrightarrow> (\<exists>n. real_mutations
                      (drop (length tr) (snd (deployToCloudRun c pid loc sid img cb True tr)))
                 = replicate (Suc n)
                     (real_call c pid loc sid ex
                        ((initial_service c sid img True)\<lparr>invokerIamDisabled := False\<rparr>))))
     \<and> (\<not> (truthy (message e)
            \<and> (js_includes (toLowerCase (js_str (message e))) ''invokeriamdisabled''
               \<or> js_includes (toLowerCase (js_str (message e))) ''iam policy violation''
               \<or> code e = Some 3))
          \<longrightarrow> fst (deployToCloudRun c pid loc sid img cb True tr) =
                 Inl (new_Error (''Dry run validation failed for service '' @ sid @ '': ''
                                   @ js_str (message e)))
              \<and> real_mutations
                   (drop (length tr) (snd (deployToCloudRun c pid loc sid img cb True tr)))
                 = [])"
proof (intro conjI impI)
  assume "truthy (message e)
            \<and> (js_includes (toLowerCase (js_str (message e))) ''invokeriamdisabled''
               \<or> js_includes (toLowerCase (js_str (message e))) ''iam policy violation''
               \<or> code e = Some 3)"
  then have "True \<and> truthy (message e)
            \<and> (js_includes (toLowerCase (js_str (message e))) ''invokeriamdisabled''
               \<or> js_includes (toLowerCase (js_str (message e))) ''iam policy violation''
               \<or> code e = Some 3)"
    by simp
  from deployToCloudRun_fallback [OF assms this]
  show "\<exists>n. real_mutations
                      (drop (length tr) (snd (deployToCloudRun c pid loc sid img cb True tr)))
                 = replicate (Suc n)
                     (real_call c pid loc sid ex
                        ((initial_service c sid img True)\<lparr>invokerIamDisabled := False\<rparr>))" .
next
  assume "\<not> (truthy (message e)
            \<and> (js_includes (toLowerCase (js_str (message e))) ''invokeriamdisabled''
               \<or> js_includes (toLowerCase (js_str (message e))) ''iam policy violation''
               \<or> code e = Some 3))"
  then have n: "\<not> (True \<and> truthy (message e)
            \<and> (js_includes (toLowerCase (js_str (message e))) ''invokeriamdisabled''
               \<or> js_includes (toLowerCase (js_str (message e))) ''iam policy violation''
               \<or> code e = Some 3))"
    by simp
  note r = deployToCloudRun_rejected [OF assms n]
  show "fst (deployToCloudRun c pid loc sid img cb True tr) =
           Inl (new_Error (''Dry run validation failed for service '' @ sid @ '': ''
                             @ js_str (message e)))"
    unfolding r [THEN conjunct1] by simp
  show "real_mutations
          (drop (length tr) (snd (deployToCloudRun c pid loc sid img cb True tr))) = []"
    using r [THEN conjunct2] .
qed

theorem deployToCloudRun_dry_run_fallback_witness:
  "(\<exists>n. real_mutations (drop (length ([] :: trace))
            (snd (deployToCloudRun c1_backend ''p'' ''r'' ''s'' ''img'' False True [])))
        = replicate (Suc n)
            (CreateService ''projects/p/locations/r''
               ((initial_service c1_backend ''s'' ''img'' True)\<lparr>invokerIamDisabled := False\<rparr>)
               ''s'' False))
   \<and> fst (deployToCloudRun c1_backend_other ''p'' ''r'' ''s'' ''img'' False True []) =
       Inl (new_Error ''Dry run validation failed for service s: Quota exceeded'')
   \<and> real_mutations (drop (length ([] :: trace))
         (snd (deployToCloudRun c1_backend_other ''p'' ''r'' ''s'' ''img'' False True []))) = []"
proof -
  have h1: "serviceExists_r c1_backend (ncalls MServiceExists []) = Inr False"
    by (simp add: c1_backend_def quiet_backend_def)
  have h2: "dry_run c1_backend (runClient_locationPath c1_backend ''p'' ''r'')
           (runClient_servicePath c1_backend ''p'' ''r'' ''s'') ''s''
           False (initial_service c1_backend ''s'' ''img'' True) False
           ([] @ [Call (ServiceExists ''p'' ''r'' ''s'')])
         = (Inl invoker_rejected,
            [Call (ServiceExists ''p'' ''r'' ''s''),
             Console Info ''Performing dry run for service s...'',
             Call (CreateService ''projects/p/locations/r''
                     (initial_service c1_backend ''s'' ''img'' True) ''s'' True)])"
    by (simp add: c1_backend_def invoker_rejected_def deploy_eval)
  have c: "truthy (message invoker_rejected)
            \<and> (js_includes (toLowerCase (js_str (message invoker_rejected)))
                  ''invokeriamdisabled''
               \<or> js_includes (toLowerCase (js_str (message invoker_rejected)))
                  ''iam policy violation''
               \<or> code invoker_rejected = Some 3)"
    by (simp add: invoker_rejected_def truthy_def js_str_def toLowerCase_def lower_char_def)
  have a: "\<exists>n. real_mutations (drop (length ([] :: trace))
            (snd (deployToCloudRun c1_backend ''p'' ''r'' ''s'' ''img'' False True [])))
        = replicate (Suc n)
            (real_call c1_backend ''p'' ''r'' ''s'' False
               ((initial_service c1_backend ''s'' ''img'' True)
                  \<lparr>invokerIamDisabled := False\<rparr>))"
    using deployToCloudRun_dry_run_fallback [OF h1 h2, THEN conjunct1, rule_format, OF c] .
  have rc: "real_call c1_backend ''p'' ''r'' ''s'' False
               ((initial_service c1_backend ''s'' ''img'' True)
                  \<lparr>invokerIamDisabled := False\<rparr>)
            = CreateService ''projects/p/locations/r''
               ((initial_service c1_backend ''s'' ''img'' True)\<lparr>invokerIamDisabled := False\<rparr>)
               ''s'' False"
    by (simp add: real_call_def c1_backend_def quiet_backend_def)
  have h1': "serviceExists_r c1_backend_other (ncalls MServiceExists []) = Inr False"
    by (simp add: c1_backend_other_def quiet_backend_def)
  have h2': "dry_run c1_backend_other (runClient_locationPath c1_backend_other ''p'' ''r'')
           (runClient_servicePath c1_backend_other ''p'' ''r'' ''s'') ''s''
           False (initial_service c1_backend_other ''s'' ''img'' True) False
           ([] @ [Call (ServiceExists ''p'' ''r'' ''s'')])
         = (Inl quota_exceeded,
            [Call (ServiceExists ''p'' ''r'' ''s''),
             Console Info ''Performing dry run for service s...'',
             Call (CreateService ''projects/p/locations/r''
                     (initial_service c1_backend_other ''s'' ''img'' True) ''s'' True)])"
    by (simp add: c1_backend_other_def quota_exceeded_def deploy_eval)
  have c': "\<not> (truthy (message quota_exceeded)
            \<and> (js_includes (toLowerCase (js_str (message quota_exceeded)))
                  ''invokeriamdisabled''
               \<or> js_includes (toLowerCase (js_str (message quota_exceeded)))
                  ''iam policy violation''
               \<or> code quota_exceeded = Some 3))"
    by (simp add: quota_exceeded_def truthy_def js_str_def toLowerCase_def lower_char_def)
  have b: "fst (deployToCloudRun c1_backend_other ''p'' ''r'' ''s'' ''img'' False True []) =
       Inl (new_Error (''Dry run validation failed for service '' @ ''s'' @ '': ''
                         @ js_str (message quota_exceeded)))
   \<and> real_mutations (drop (length ([] :: trace))
         (snd (deployToCloudRun c1_backend_other ''p'' ''r'' ''s'' ''img'' False True []))) = []"
    using deployToCloudRun_dry_run_fallback [OF h1' h2', THEN conjunct2, rule_format, OF c'] .
  show ?thesis
    using a b unfolding rc by (simp add: quota_exceeded_def js_str_def)
qed

lemma js_startsWith_split: "js_startsWith s p \<Longrightarrow> \<exists>q. s = p @ q"
  by (induction s p rule: js_startsWith.induct) auto

lemma js_includes_split: "js_includes s sub \<Longrightarrow> \<exists>p q. s = p @ sub @ q"
proof (induction s)
  case Nil
  then show ?case by simp
next
  case (Cons x s)
  show ?case
  proof (cases "js_startsWith (x # s) sub")
    case True
    then obtain q where "x # s = sub @ q"
      using js_startsWith_split by blast
    then have "x # s = [] @ sub @ q" by simp
    then show ?thesis by blast
  next
    case False
    with Cons.prems have "js_includes s sub" by simp
    then obtain p q where "s = p @ sub @ q"
      using Cons.IH by blast
    then have "x # s = (x # p) @ sub @ q" by simp
    then show ?thesis by blast
  qed
qed

text \<open>
  A message that holds \<open>invokerIamDisabled\<close> as the backend spells it passes the test of
  the \<open>catch\<close> block.
\<close>

lemma invokerIamDisabled_in_message:
  assumes "js_includes m ''invokerIamDisabled''"
  shows "truthy (Some m) \<and> js_includes (toLowerCase (js_str (Some m))) ''invokeriamdisabled''"
proof -
  obtain p q where m: "m = p @ ''invokerIamDisabled'' @ q"
    using js_includes_split [OF assms] by blast
  have l: "toLowerCase ''invokerIamDisabled'' = ''invokeriamdisabled''"
    by (simp add: toLowerCase_def lower_char_def)
  have "toLowerCase m = toLowerCase p @ ''invokeriamdisabled'' @ toLowerCase q"
    unfolding m using l by (simp add: toLowerCase_def)
  then have "js_includes (toLowerCase m) ''invokeriamdisabled''"
    using js_includes_append [of "toLowerCase p" "''invokeriamdisabled''" "toLowerCase q"]
    by (simp only:)
  moreover have "m \<noteq> []"
    using m by simp
  ultimately show ?thesis
    by (simp add: truthy_def js_str_def)
qed

text \<open>
  Claim C1 as it is written fails where the dry run fails with code 3 (invalid
  argument) and an empty message: with \<open>skipIamCheck\<close> set, \<open>deployToCloudRun\<close> throws
  and makes no real call.
\<close>

theorem deployToCloudRun_fallback_counterexample:
  "code invalid_argument_empty = Some 3
   \<and> dry_run c1_cex_backend (runClient_locationPath c1_cex_backend ''p'' ''r'')
           (runClient_servicePath c1_cex_backend ''p'' ''r'' ''s'') ''s''
           False (initial_service c1_cex_backend ''s'' ''img'' True) False
           [Call (ServiceExists ''p'' ''r'' ''s'')]
         = (Inl invalid_argument_empty,
            [Call (ServiceExists ''p'' ''r'' ''s''),
             Console Info ''Performing dry run for service s...'',
             Call (CreateService ''projects/p/locations/r''
                     (initial_service c1_cex_backend ''s'' ''img'' True) ''s'' True)])
   \<and> fst (deployToCloudRun c1_cex_backend ''p'' ''r'' ''s'' ''img'' False True []) =
       Inl (new_Error ''Dry run validation failed for service s: '')
   \<and> real_mutations (snd (deployToCloudRun c1_cex_backend ''p'' ''r'' ''s'' ''img'' False True []))
       = []"
proof -
  have h1: "serviceExists_r c1_cex_backend (ncalls MServiceExists []) = Inr False"
    by (simp add: c1_cex_backend_def quiet_backend_def)
  have h2: "dry_run c1_cex_backend (runClient_locationPath c1_cex_backend ''p'' ''r'')
           (runClient_servicePath c1_cex_backend ''p'' ''r'' ''s'') ''s''
           False (initial_service c1_cex_backend ''s'' ''img'' True) False
           ([] @ [Call (ServiceExists ''p'' ''r'' ''s'')])
         = (Inl invalid_argument_empty,
            [Call (ServiceExists ''p'' ''r'' ''s''),
             Console Info ''Performing dry run for service s...'',
             Call (CreateService ''projects/p/locations/r''
                     (initial_service c1_cex_backend ''s'' ''img'' True) ''s'' True)])"
    by (simp add: c1_cex_backend_def invalid_argument_empty_def deploy_eval)
  have c: "\<not> (True \<and> truthy (message invalid_argument_empty)
            \<and> (js_includes (toLowerCase (js_str (message invalid_argument_empty)))
                  ''invokeriamdisabled''
               \<or> js_includes (toLowerCase (js_str (message invalid_argument_empty)))
                  ''iam policy violation''
               \<or> code invalid_argument_empty = Some 3))"
    by (simp add: invalid_argument_empty_def truthy_def)
  note r = deployToCloudRun_rejected [OF h1 h2 c]
  have a: "fst (deployToCloudRun c1_cex_backend ''p'' ''r'' ''s'' ''img'' False True []) =
       Inl (new_Error ''Dry run validation failed for service s: '')"
    unfolding r [THEN conjunct1] by (simp add: invalid_argument_empty_def js_str_def)
  have b: "real_mutations
        (snd (deployToCloudRun c1_cex_backend ''p'' ''r'' ''s'' ''img'' False True [])) = []"
    using r [THEN conjunct2] by simp
  have d: "code invalid_argument_empty = Some 3"
    by (simp add: invalid_argument_empty_def)
  from a b d h2 show ?thesis by simp
qed

subsection \<open>Dockerfile detection\<close>

lemma hasDockerfile_loop_result:
  "JNull \<notin> set files \<Longrightarrow>
   hasDockerfile_loop node files = Inr (\<exists>f \<in> set files. names_dockerfile node f)"
proof (induction files)
  case Nil
  show ?case by simp
next
  case (Cons item files)
  then have ih: "hasDockerfile_loop node files = Inr (\<exists>f \<in> set files. names_dockerfile node f)"
    by simp
  show ?case
  proof (cases item)
    case (JString p)
    then show ?thesis using ih by simp
  next
    case (JObject filename content)
    then show ?thesis using ih
      by (cases filename) (auto simp: truthy_def js_str_def)
  next
    case JNull
    with Cons.prems show ?thesis by simp
  next
    case (JPrimitive v)
    then show ?thesis using ih by simp
  qed
qed

text \<open>
  Claim C9, as the code has it. For a single path that is a directory, detection is true
  exactly when \<open>existsSync\<close> finds \<open>Dockerfile\<close> or \<open>dockerfile\<close> joined to it. For
  any other list without \<open>null\<close> items (a single path has to be an existing file),
  detection is true exactly when the base name of some path string, or of some
  non-empty \<open>filename\<close>, is \<open>dockerfile\<close> in lower case.
\<close>

theorem deploy_hasDockerfile_detection:
  "(fs_stat node dir = Some Directory \<longrightarrow>
      deploy_hasDockerfile node [JString dir] =
        Inr (existsSync node (path_join node dir ''Dockerfile'')
             \<or> existsSync node (path_join node dir ''dockerfile'')))
   \<and> (JNull \<notin> set files \<and> (\<forall>p. files = [JString p] \<longrightarrow> fs_stat node p = Some RegularFile) \<longrightarrow>
      deploy_hasDockerfile node files = Inr (\<exists>f \<in> set files. names_dockerfile node f))"
proof (intro conjI impI)
  assume "fs_stat node dir = Some Directory"
  then show "deploy_hasDockerfile node [JString dir] =
        Inr (existsSync node (path_join node dir ''Dockerfile'')
             \<or> existsSync node (path_join node dir ''dockerfile''))"
    by (simp add: deploy_hasDockerfile_def)
next
  assume a: "JNull \<notin> set files
     \<and> (\<forall>p. files = [JString p] \<longrightarrow> fs_stat node p = Some RegularFile)"
  then have loop: "hasDockerfile_loop node files = Inr (\<exists>f \<in> set files. names_dockerfile node f)"
    using hasDockerfile_loop_result by blast
  show "deploy_hasDockerfile node files = Inr (\<exists>f \<in> set files. names_dockerfile node f)"
  proof (cases "\<exists>p. files = [JString p]")
    case True
    then obtain p where p: "files = [JString p]" by blast
    with a have "fs_stat node p = Some RegularFile" by blast
    then show ?thesis
      using loop unfolding p by (simp add: deploy_hasDockerfile_def)
  next
    case False
    then have "deploy_hasDockerfile node files = hasDockerfile_loop node files"
      by (auto simp: deploy_hasDockerfile_def split: list.splits js_item.splits)
    then show ?thesis using loop by simp
  qed
qed

lemma lower_dockerfile:
  "toLowerCase ''DOCKERFILE'' = ''dockerfile''"
  "toLowerCase ''DockerFile'' = ''dockerfile''"
  "toLowerCase ''main.go'' = ''main.go''"
  "toLowerCase ''go.mod'' = ''go.mod''"
  by (simp_all add: toLowerCase_def lower_char_def)

theorem deploy_hasDockerfile_detection_witness:
  "deploy_hasDockerfile (posix_node usual_fs) [JString ''/app''] = Inr True
   \<and> deploy_hasDockerfile (posix_node usual_fs)
       [JObject (Some ''main.go'') (Some ''package main''),
        JObject (Some ''build/DockerFile'') (Some ''FROM golang'')] = Inr True
   \<and> deploy_hasDockerfile (posix_node usual_fs) [JString ''/app/main.go''] = Inr False"
proof -
  have a: "deploy_hasDockerfile (posix_node usual_fs) [JString ''/app''] = Inr True"
    using deploy_hasDockerfile_detection [of "posix_node usual_fs" "''/app''" "[]",
        THEN conjunct1]
    by (simp add: posix_node_def usual_fs_def existsSync_def)
  have b: "deploy_hasDockerfile (posix_node usual_fs)
       [JObject (Some ''main.go'') (Some ''package main''),
        JObject (Some ''build/DockerFile'') (Some ''FROM golang'')] = Inr True"
    using deploy_hasDockerfile_detection [of "posix_node usual_fs" "''/app''"
        "[JObject (Some ''main.go'') (Some ''package main''),
          JObject (Some ''build/DockerFile'') (Some ''FROM golang'')]", THEN conjunct2]
    by (simp add: posix_node_def posix_basename_def lower_dockerfile)
  have c: "deploy_hasDockerfile (posix_node usual_fs) [JString ''/app/main.go''] = Inr False"
    using deploy_hasDockerfile_detection [of "posix_node usual_fs" "''/app''"
        "[JString ''/app/main.go'']", THEN conjunct2]
    by (simp add: posix_node_def usual_fs_def posix_basename_def lower_dockerfile)
  from a b c show ?thesis by simp
qed

text \<open>
  Claim C9 as it is written fails on a case-sensitive file system: the directory
  \<open>/app\<close> holds \<open>DOCKERFILE\<close>, whose name is \<open>dockerfile\<close> in lower case, and detection
  is false.
\<close>

theorem deploy_hasDockerfile_counterexample:
  "fs_stat (posix_node upper_only_fs) ''/app'' = Some Directory
   \<and> dir_entries upper_only_fs ''/app'' = [''DOCKERFILE'', ''main.go'']
   \<and> toLowerCase ''DOCKERFILE'' = ''dockerfile''
   \<and> deploy_hasDockerfile (posix_node upper_only_fs) [JString ''/app''] = Inr False"
  by (simp add: posix_node_def upper_only_fs_def dir_entries_def lower_dockerfile
        deploy_hasDockerfile_def existsSync_def)

subsection \<open>The items of zipFiles\<close>

lemma zip_item_path:
  "zip_item node (JString file) =
     (case fs_stat node
             (path_resolve node (if js_startsWith file ''/c'' then ''/mnt'' @ file else file)) of
        None \<Rightarrow>
          Inl (new_Error (''File or directory not found: ''
                 @ path_resolve node
                     (if js_startsWith file ''/c'' then ''/mnt'' @ file else file)))
      | Some Directory \<Rightarrow>
          Inr (AddDirectory
                 (path_resolve node
                    (if js_startsWith file ''/c'' then ''/mnt'' @ file else file)) None)
      | Some RegularFile \<Rightarrow>
          Inr (AddFile
                 (path_resolve node (if js_startsWith file ''/c'' then ''/mnt'' @ file else file))
                 (path_basename node
                    (path_resolve node
                       (if js_startsWith file ''/c'' then ''/mnt'' @ file else file)))))"
  by (simp add: Let_def)

lemma zip_item_invalid:
  assumes "item \<noteq> JNull"
    and "\<And>p. item \<noteq> JString p"
    and "\<And>f content. item \<noteq> JObject (Some f) (Some content)"
  shows "zip_item node item =
           Inl (new_Error (''Invalid file format: '' @ json_stringify node item))"
  using assms by (cases "(node, item)" rule: zip_item.cases) auto

lemma zipFiles_first_failure:
  assumes "zip_forEach node pre archive = Inr archive1"
    and "zip_item node file = Inl e"
  shows "zip_forEach node (pre @ file # post) archive = Inl e"
  using assms
  by (induction pre arbitrary: archive) (auto split: sum.splits)

text \<open>
  Claim C8 at the item \<open>null\<close>, which is neither a string nor an object with both
  properties: \<open>typeof null\<close> is \<open>'object'\<close>, so the first test goes on to
  \<open>'filename' in file\<close>, which throws a TypeError. \<open>zipFiles\<close> fails with that error,
  whose message does not start with "Invalid file format".
\<close>

theorem zipFiles_null_item:
  "zipFiles node [JNull] cb tr =
     (Inl in_null_error, tr @ log_events ''Creating in-memory zip archive...'' cb Info)
   \<and> message in_null_error
       = Some ''Cannot use 'in' operator to search for 'filename' in null''
   \<and> js_startsWith (js_str (message in_null_error)) ''Invalid file format'' = False"
  by (simp add: zipFiles_def io_bind_def logAndProgress_def emit_def io_throw_def
        in_null_error_def js_str_def)

end
